theory Spec2Isabelle
  imports Complex_Main "HOL-Library.Monad_Syntax" "HOL-Library.Log_Nat"
begin

section \<open>Python values, exceptions and string primitives\<close>

text \<open>
  Exceptions are values. Every \<^verbatim>\<open>except Exception\<close> of the source is a case
  distinction on \<open>Inl\<close>; the constructors below are the subclasses of \<^verbatim>\<open>Exception\<close>
  that the modelled code can raise, each carrying the text \<^verbatim>\<open>str(e)\<close> gives.
\<close>

datatype py_exception =
    ZeroDivisionError
  | KeyError string
  | ValueError string
  | OverflowError string
  | ValidationError string
  | HttpError string
  | RuntimeError string

fun str_exc :: "py_exception \<Rightarrow> string" where
  "str_exc ZeroDivisionError = ''division by zero''"
| "str_exc (KeyError k) = [CHR 0x27] @ k @ [CHR 0x27]"
| "str_exc (ValueError m) = m"
| "str_exc (OverflowError m) = m"
| "str_exc (ValidationError m) = m"
| "str_exc (HttpError m) = m"
| "str_exc (RuntimeError m) = m"

text \<open>
  A Python float is a double; a finite one is represented by its value, a rational. Rounding
  to a double keeps 53 significant bits, with exponent at least \<open>-1074\<close>, and rounds ties to
  the even neighbour. \<open>floor_log2 a b\<close> is the integer \<open>k\<close> with \<open>2^k \<le> a / b < 2^(k+1)\<close>
  for positive \<open>a\<close> and \<open>b\<close>; \<open>nearest_double a b\<close> is the quotient \<open>a / b\<close> rounded.
\<close>

definition round_half_even :: "rat \<Rightarrow> int" where
  "round_half_even x =
     (let f = \<lfloor>x\<rfloor>; d = x - of_int f
      in if d < 1 / 2 then f else if 1 / 2 < d then f + 1 else if even f then f else f + 1)"

definition floor_log2 :: "int \<Rightarrow> int \<Rightarrow> int" where
  "floor_log2 a b =
     (let k = bitlen a - bitlen b
      in if (2::rat) powi k \<le> of_int a / of_int b then k else k - 1)"

definition nearest_double :: "int \<Rightarrow> int \<Rightarrow> rat" where
  "nearest_double a b =
     (if a = 0 then 0
      else let e = max (floor_log2 \<bar>a\<bar> \<bar>b\<bar> - 52) (- 1074);
               m = round_half_even ((of_int a / of_int b) / 2 powi e)
           in of_int m * 2 powi e)"

text \<open>\<^verbatim>\<open>a / b\<close> on Python ints: true division. It raises \<^verbatim>\<open>ZeroDivisionError\<close> on a
  zero divisor, returns the double nearest to the quotient, and raises \<^verbatim>\<open>OverflowError\<close>
  when that rounding leaves the range of the finite doubles.\<close>

definition py_truediv :: "int \<Rightarrow> int \<Rightarrow> py_exception + rat" where
  "py_truediv a b =
     (if b = 0 then Inl ZeroDivisionError
      else let r = nearest_double a b in
        if 2 ^ 1024 \<le> \<bar>r\<bar>
        then Inl (OverflowError ''integer division result too large for a float'')
        else Inr r)"

text \<open>A float that need not be finite: the result of float additions and divisions.\<close>

datatype pyfloat = Finite rat | Infinity | NegInfinity | NaN

text \<open>\<^verbatim>\<open>str.lower()\<close> on ASCII text: the 26 capital letters are mapped, all other
  characters are left as they are.\<close>

definition lower_char :: "char \<Rightarrow> char" where
  "lower_char c =
     (case map_of (zip ''ABCDEFGHIJKLMNOPQRSTUVWXYZ'' ''abcdefghijklmnopqrstuvwxyz'') c of
        None \<Rightarrow> c | Some d \<Rightarrow> d)"

definition py_lower :: "string \<Rightarrow> string" where
  "py_lower s = map lower_char s"

text \<open>\<^verbatim>\<open>w in s\<close> on strings: \<open>w\<close> occurs in \<open>s\<close> as a contiguous substring.\<close>

fun startswith :: "string \<Rightarrow> string \<Rightarrow> bool" where
  "startswith [] s = True"
| "startswith (x # xs) [] = False"
| "startswith (x # xs) (y # ys) = (x = y \<and> startswith xs ys)"

fun py_in :: "string \<Rightarrow> string \<Rightarrow> bool" where
  "py_in w [] = (w = [])"
| "py_in w (c # cs) = (startswith w (c # cs) \<or> py_in w cs)"

text \<open>\<^verbatim>\<open>s.replace('Z', '+00:00')\<close>: every occurrence of the character is replaced.\<close>

definition replace_Z :: "string \<Rightarrow> string" where
  "replace_Z s = concat (map (\<lambda>c. if c = CHR ''Z'' then ''+00:00'' else [c]) s)"

text \<open>\<^verbatim>\<open>sep.join(xs)\<close>.\<close>

fun join :: "string \<Rightarrow> string list \<Rightarrow> string" where
  "join sep [] = []"
| "join sep [x] = x"
| "join sep (x # y # ys) = x @ sep @ join sep (y # ys)"

text \<open>\<^verbatim>\<open>int(s)\<close> on a string: surrounding ASCII whitespace is stripped, then an optional
  sign and a non-empty run of decimal digits is read; anything else raises
  \<^verbatim>\<open>ValueError\<close>, which is \<open>None\<close> here. Single underscores between digits are allowed
  and skipped.\<close>

definition digit_of :: "char \<Rightarrow> nat option" where
  "digit_of c = map_of (zip ''0123456789'' [0, 1, 2, 3, 4, 5, 6, 7, 8, 9]) c"

fun digits_value :: "nat \<Rightarrow> string \<Rightarrow> nat option" where
  "digits_value acc [] = Some acc"
| "digits_value acc (c # cs) =
     (case digit_of c of None \<Rightarrow> None | Some d \<Rightarrow> digits_value (10 * acc + d) cs)"

definition is_space :: "char \<Rightarrow> bool" where
  "is_space c = (c \<in> set [CHR '' '', CHR 0x09, CHR 0x0A, CHR 0x0B, CHR 0x0C, CHR 0x0D])"

definition strip :: "string \<Rightarrow> string" where
  "strip s = rev (dropWhile is_space (rev (dropWhile is_space s)))"

fun well_grouped :: "string \<Rightarrow> bool" where
  "well_grouped [] = False"
| "well_grouped [c] = (digit_of c \<noteq> None)"
| "well_grouped (c # d # cs) =
     (digit_of c \<noteq> None
      \<and> (if d = CHR ''_'' then well_grouped cs else well_grouped (d # cs)))"

definition unsigned_int :: "string \<Rightarrow> int option" where
  "unsigned_int s =
     (if well_grouped s
      then map_option int (digits_value 0 (filter (\<lambda>c. c \<noteq> CHR ''_'') s))
      else None)"

definition py_int :: "string \<Rightarrow> int option" where
  "py_int s =
     (case strip s of
        [] \<Rightarrow> None
      | c # cs \<Rightarrow>
          if c = CHR ''-'' then map_option uminus (unsigned_int cs)
          else if c = CHR ''+'' then unsigned_int cs
          else unsigned_int (c # cs))"

text \<open>\<^verbatim>\<open>str(n)\<close> for an int.\<close>

definition digit_char :: "int \<Rightarrow> char" where
  "digit_char d = ''0123456789'' ! nat d"

function digits_of :: "int \<Rightarrow> string" where
  "digits_of n =
     (if n < 10 then [digit_char n] else digits_of (n div 10) @ [digit_char (n mod 10)])"
  by pat_completeness auto
termination
  by (relation "measure nat") auto

declare digits_of.simps [simp del]

definition str_int :: "int \<Rightarrow> string" where
  "str_int i = (if i < 0 then CHR ''-'' # digits_of (- i) else digits_of i)"

section \<open>Data model (models/youtube\_models.py)\<close>

datatype VideoCategory =
  EDUCATION | ENTERTAINMENT | TECHNOLOGY | GAMING | MUSIC | NEWS | SPORTS | OTHER

record VideoStats =
  view_count :: int
  like_count :: int
  comment_count :: int
  duration_seconds :: int

text \<open>The property \<^verbatim>\<open>VideoStats.engagement_rate\<close>.\<close>

definition engagement_rate :: "VideoStats \<Rightarrow> py_exception + rat" where
  "engagement_rate s =
     (if view_count s = 0 then Inr 0
      else py_truediv (like_count s + comment_count s) (view_count s))"

text \<open>An instant is a whole number of seconds since 1970-01-01T00:00:00 UTC.\<close>

type_synonym datetime = int

record VideoData =
  video_id :: string
  title :: string
  description :: string
  channel_id :: string
  channel_title :: string
  published_at :: datetime
  duration :: string
  category :: VideoCategory
  stats :: VideoStats
  tags :: "string list"
  thumbnail_url :: "string option"
  sentiment_score :: "rat option"
  credibility_score :: "rat option"
  trending_score :: "rat option"

record SearchQuery =
  query :: string
  max_results :: int
  region_code :: string
  language :: string
  published_after :: "datetime option"
  published_before :: "datetime option"
  order :: string

record SearchResult =
  sr_query :: SearchQuery
  videos :: "VideoData list"
  total_results :: int

text \<open>The property \<^verbatim>\<open>SearchResult.average_engagement\<close>: 0 for an empty result,
  otherwise \<^verbatim>\<open>sum(rates) / len(rates)\<close>, which is computed in double arithmetic and is
  the parameter \<open>mean\<close>.\<close>

fun engagement_rates :: "VideoData list \<Rightarrow> py_exception + rat list" where
  "engagement_rates [] = Inr []"
| "engagement_rates (v # vs) =
     (case engagement_rate (stats v) of
        Inl e \<Rightarrow> Inl e
      | Inr r \<Rightarrow> (case engagement_rates vs of Inl e \<Rightarrow> Inl e | Inr rs \<Rightarrow> Inr (r # rs)))"

definition average_engagement ::
  "(rat list \<Rightarrow> pyfloat) \<Rightarrow> SearchResult \<Rightarrow> py_exception + pyfloat" where
  "average_engagement mean res =
     (if videos res = [] then Inr (Finite 0)
      else (case engagement_rates (videos res) of
              Inl e \<Rightarrow> Inl e
            | Inr rs \<Rightarrow> Inr (mean rs)))"

text \<open>\<^verbatim>\<open>category.value\<close>.\<close>

fun category_value :: "VideoCategory \<Rightarrow> string" where
  "category_value EDUCATION = ''education''"
| "category_value ENTERTAINMENT = ''entertainment''"
| "category_value TECHNOLOGY = ''technology''"
| "category_value GAMING = ''gaming''"
| "category_value MUSIC = ''music''"
| "category_value NEWS = ''news''"
| "category_value SPORTS = ''sports''"
| "category_value OTHER = ''other''"

section \<open>Category inference (services/youtube\_service.py, \_categorize\_video)\<close>

definition any_word_in :: "string list \<Rightarrow> string \<Rightarrow> bool" where
  "any_word_in ws content = list_ex (\<lambda>word. py_in word content) ws"

definition categorize_video :: "string \<Rightarrow> string \<Rightarrow> VideoCategory" where
  "categorize_video ttl descr =
     (let content = py_lower (ttl @ '' '' @ descr) in
      if any_word_in [''tutorial'', ''learn'', ''education'', ''course''] content then EDUCATION
      else if any_word_in [''tech'', ''programming'', ''software'', ''ai''] content then TECHNOLOGY
      else if any_word_in [''game'', ''gaming'', ''play''] content then GAMING
      else if any_word_in [''music'', ''song'', ''album''] content then MUSIC
      else if any_word_in [''news'', ''breaking'', ''report''] content then NEWS
      else if any_word_in [''sport'', ''football'', ''basketball''] content then SPORTS
      else OTHER)"

text \<open>The rule table in the words of the specification: keyword sets in priority order,
  the first set with a member occurring in the content decides, otherwise \<open>OTHER\<close>.\<close>

definition spec_category_rules :: "(string list \<times> VideoCategory) list" where
  "spec_category_rules =
     [([''tutorial'', ''learn'', ''education'', ''course''], EDUCATION),
      ([''tech'', ''programming'', ''software'', ''ai''], TECHNOLOGY),
      ([''game'', ''gaming'', ''play''], GAMING),
      ([''music'', ''song'', ''album''], MUSIC),
      ([''news'', ''breaking'', ''report''], NEWS),
      ([''sport'', ''football'', ''basketball''], SPORTS)]"

fun spec_first_match :: "(string list \<times> VideoCategory) list \<Rightarrow> string \<Rightarrow> VideoCategory" where
  "spec_first_match [] content = OTHER"
| "spec_first_match ((ws, cat) # rules) content =
     (if (\<exists>w \<in> set ws. \<exists>pre post. content = pre @ w @ post) then cat
      else spec_first_match rules content)"

section \<open>The provider and the libraries (external collaborators)\<close>

text \<open>
  A raw record of the provider's \<^verbatim>\<open>videos().list\<close> response. A field that may be absent
  from the JSON object is an \<open>option\<close>; the counters arrive as strings.
\<close>

record raw_snippet =
  sn_title :: "string option"
  sn_description :: "string option"
  sn_channelId :: "string option"
  sn_channelTitle :: "string option"
  sn_publishedAt :: "string option"
  sn_tags :: "string list option"
  sn_thumbnail_high_url :: "string option"

record raw_statistics =
  st_viewCount :: "string option"
  st_likeCount :: "string option"
  st_commentCount :: "string option"

record raw_contentDetails =
  cd_duration :: "string option"

record raw_item =
  it_id :: "string option"
  it_snippet :: "raw_snippet option"
  it_statistics :: "raw_statistics option"
  it_contentDetails :: "raw_contentDetails option"

text \<open>The parameters of \<^verbatim>\<open>search().list\<close> and its response. \<open>si_videoId\<close> is
  \<^verbatim>\<open>item['id']['videoId']\<close>, \<open>None\<close> when either key is missing.\<close>

record search_params =
  sp_part :: string
  sp_q :: string
  sp_type :: string
  sp_maxResults :: int
  sp_regionCode :: string
  sp_relevanceLanguage :: string
  sp_order :: string
  sp_publishedAfter :: "string option"
  sp_publishedBefore :: "string option"

record raw_search_item =
  si_videoId :: "string option"

record search_response =
  sr_items :: "raw_search_item list option"
  sr_totalResults :: "int option"

text \<open>
  Everything the service reaches outside the repository:
  \<^item> \<open>search_list\<close>, \<open>videos_list\<close>: the provider's two endpoints (\<^verbatim>\<open>.execute()\<close>), which may
    raise; \<open>videos_list\<close> takes the \<^verbatim>\<open>part\<close> parameter and the ids (sent comma-joined as
    the \<^verbatim>\<open>id\<close> parameter) and returns \<^verbatim>\<open>video_response['items']\<close> when the key is there;
  \<^item> \<open>parse_duration\<close>: \<^verbatim>\<open>int(isodate.parse_duration(s).total_seconds())\<close>, \<open>None\<close> when
    that raises (a malformed duration string);
  \<^item> \<open>fromisoformat\<close>, \<open>isoformat\<close>: the methods of \<^verbatim>\<open>datetime\<close>;
  \<^item> \<open>validate_datetime\<close>: pydantic's parsing of a string given for a \<^verbatim>\<open>datetime\<close> field,
    which raises its validation error on a string it cannot read;
  \<^item> \<open>format_percent\<close>, \<open>strftime_ymd\<close>: the renderings \<^verbatim>\<open>f"{x:.2%}"\<close> of a float and
    \<^verbatim>\<open>strftime("%Y-%m-%d")\<close> of an instant;
  \<^item> \<open>float_mean\<close>: \<^verbatim>\<open>sum(xs) / len(xs)\<close> on a non-empty list of floats;
  \<^item> \<open>utcnow\<close>: the clock.
\<close>

record services =
  search_list :: "search_params \<Rightarrow> py_exception + search_response"
  videos_list :: "string \<Rightarrow> string list \<Rightarrow> py_exception + raw_item list option"
  parse_duration :: "string \<Rightarrow> int option"
  fromisoformat :: "string \<Rightarrow> datetime option"
  isoformat :: "datetime \<Rightarrow> string"
  validate_datetime :: "string \<Rightarrow> py_exception + datetime"
  format_percent :: "pyfloat \<Rightarrow> string"
  float_mean :: "rat list \<Rightarrow> pyfloat"
  strftime_ymd :: "datetime \<Rightarrow> string"
  utcnow :: datetime

section \<open>Record normalisation and search (services/youtube\_service.py)\<close>

text \<open>\<^verbatim>\<open>int(statistics.get(key, 0))\<close>.\<close>

definition stat_int :: "string option \<Rightarrow> int option" where
  "stat_int v = (case v of None \<Rightarrow> Some 0 | Some s \<Rightarrow> py_int s)"

text \<open>
  \<^verbatim>\<open>_parse_video_item\<close>. The body is one \<^verbatim>\<open>try\<close> whose handler logs and returns
  \<^verbatim>\<open>None\<close>, so every raise inside it (a missing key, a malformed duration, counter or
  timestamp) is the value \<open>None\<close>.
\<close>

definition parse_video_item :: "services \<Rightarrow> raw_item \<Rightarrow> VideoData option" where
  "parse_video_item env item =
     do {
       snippet \<leftarrow> it_snippet item;
       let statistics = (case it_statistics item of
              None \<Rightarrow> \<lparr>st_viewCount = None, st_likeCount = None, st_commentCount = None\<rparr>
            | Some st \<Rightarrow> st);
       let duration_str = (case it_contentDetails item of
              None \<Rightarrow> ''PT0S''
            | Some cd \<Rightarrow> (case cd_duration cd of None \<Rightarrow> ''PT0S'' | Some d \<Rightarrow> d));
       secs \<leftarrow> parse_duration env duration_str;
       views \<leftarrow> stat_int (st_viewCount statistics);
       likes \<leftarrow> stat_int (st_likeCount statistics);
       comments \<leftarrow> stat_int (st_commentCount statistics);
       let stats = \<lparr>view_count = views, like_count = likes, comment_count = comments,
                    duration_seconds = secs\<rparr>;
       let cat = categorize_video
                   (case sn_title snippet of None \<Rightarrow> [] | Some t \<Rightarrow> t)
                   (case sn_description snippet of None \<Rightarrow> [] | Some d \<Rightarrow> d);
       published_str \<leftarrow> sn_publishedAt snippet;
       published \<leftarrow> fromisoformat env (replace_Z published_str);
       vid \<leftarrow> it_id item;
       ttl \<leftarrow> sn_title snippet;
       cid \<leftarrow> sn_channelId snippet;
       ctitle \<leftarrow> sn_channelTitle snippet;
       Some \<lparr>video_id = vid,
             title = ttl,
             description = (case sn_description snippet of None \<Rightarrow> [] | Some d \<Rightarrow> d),
             channel_id = cid,
             channel_title = ctitle,
             published_at = published,
             duration = duration_str,
             category = cat,
             stats = stats,
             tags = (case sn_tags snippet of None \<Rightarrow> [] | Some ts \<Rightarrow> ts),
             thumbnail_url = sn_thumbnail_high_url snippet,
             sentiment_score = None,
             credibility_score = None,
             trending_score = None\<rparr>
     }"

text \<open>\<^verbatim>\<open>_fetch_video_batch\<close>: a record is appended only when the parser returned a video;
  any raise gives the empty list.\<close>

definition fetch_video_batch :: "services \<Rightarrow> string list \<Rightarrow> VideoData list" where
  "fetch_video_batch env ids =
     (case videos_list env ''snippet,statistics,contentDetails'' ids of
        Inl e \<Rightarrow> []
      | Inr None \<Rightarrow> []
      | Inr (Some items) \<Rightarrow> List.map_filter (parse_video_item env) items)"

text \<open>\<^verbatim>\<open>_get_video_details\<close>: the loop \<^verbatim>\<open>for i in range(0, len(video_ids), 50)\<close> over
  the slices \<^verbatim>\<open>video_ids[i:i+50]\<close>.\<close>

function video_details_from :: "services \<Rightarrow> string list \<Rightarrow> nat \<Rightarrow> VideoData list" where
  "video_details_from env ids i =
     (if i < length ids
      then fetch_video_batch env (take 50 (drop i ids)) @ video_details_from env ids (i + 50)
      else [])"
  by pat_completeness auto
termination
  by (relation "measure (\<lambda>(env, ids, i). length ids - i)") auto

declare video_details_from.simps [simp del]

definition get_video_details :: "services \<Rightarrow> string list \<Rightarrow> VideoData list" where
  "get_video_details env ids = (if ids = [] then [] else video_details_from env ids 0)"

text \<open>\<^verbatim>\<open>[item['id']['videoId'] for item in search_response['items']]\<close>: the first
  item without the key raises \<^verbatim>\<open>KeyError\<close>.\<close>

fun video_ids_of :: "raw_search_item list \<Rightarrow> py_exception + string list" where
  "video_ids_of [] = Inr []"
| "video_ids_of (item # items) =
     (case si_videoId item of
        None \<Rightarrow> Inl (KeyError ''videoId'')
      | Some v \<Rightarrow> (case video_ids_of items of Inl e \<Rightarrow> Inl e | Inr vs \<Rightarrow> Inr (v # vs)))"

definition build_search_params :: "services \<Rightarrow> SearchQuery \<Rightarrow> search_params" where
  "build_search_params env q =
     \<lparr>sp_part = ''snippet'',
      sp_q = query q,
      sp_type = ''video'',
      sp_maxResults = min (max_results q) 50,
      sp_regionCode = region_code q,
      sp_relevanceLanguage = language q,
      sp_order = order q,
      sp_publishedAfter = map_option (isoformat env) (published_after q),
      sp_publishedBefore = map_option (isoformat env) (published_before q)\<rparr>"

text \<open>\<^verbatim>\<open>YouTubeService.search_videos\<close>: both handlers log and re-raise.\<close>

definition search_videos :: "services \<Rightarrow> SearchQuery \<Rightarrow> py_exception + SearchResult" where
  "search_videos env q =
     (case search_list env (build_search_params env q) of
        Inl e \<Rightarrow> Inl e
      | Inr response \<Rightarrow>
          (case sr_items response of
             None \<Rightarrow> Inl (KeyError ''items'')
           | Some items \<Rightarrow>
               (case video_ids_of items of
                  Inl e \<Rightarrow> Inl e
                | Inr ids \<Rightarrow>
                    Inr \<lparr>sr_query = q,
                         videos = get_video_details env ids,
                         total_results = (case sr_totalResults response of
                                            None \<Rightarrow> 0 | Some n \<Rightarrow> n)\<rparr>)))"

section \<open>Tool arguments and results\<close>

text \<open>
  The \<^verbatim>\<open>arguments\<close> dictionary of a tool call, over the keys that the three input schemas
  declare, each typed as its schema declares it; \<open>None\<close> is an absent key.
\<close>

record arguments =
  arg_query :: "string option"
  arg_max_results :: "int option"
  arg_order :: "string option"
  arg_region_code :: "string option"
  arg_published_after_days :: "int option"
  arg_topic :: "string option"
  arg_timeframe_days :: "int option"
  arg_sample_size :: "int option"
  arg_include_detailed :: "bool option"

text \<open>\<^verbatim>\<open>arguments.get(key, default)\<close>.\<close>

definition get_or :: "'a option \<Rightarrow> 'a \<Rightarrow> 'a" where
  "get_or v d = (case v of None \<Rightarrow> d | Some x \<Rightarrow> x)"

text \<open>
  The dictionary a handler returns: the keys \<^verbatim>\<open>success\<close>, \<^verbatim>\<open>message\<close> and \<^verbatim>\<open>error\<close>
  that the dispatcher and the failure paths use, and the remaining keys of a successful
  result as \<open>data\<close>.
\<close>

record 'd tool_result =
  success :: bool
  message :: "string option"
  error :: "string option"
  data :: "'d option"

section \<open>Video search (tools/video\_search\_tool.py)\<close>

text \<open>
  \<^verbatim>\<open>datetime.utcnow() - timedelta(days=days_ago)\<close>: the \<^verbatim>\<open>timedelta\<close> constructor and
  the subtraction both raise \<^verbatim>\<open>OverflowError\<close> outside their ranges (a day count that
  fits a C int and has a magnitude of at most 999999999; years 1 to 9999).
\<close>

definition datetime_min :: datetime where "datetime_min = - 62135596800"
definition datetime_max :: datetime where "datetime_max = 253402300799"

definition minus_days :: "datetime \<Rightarrow> int \<Rightarrow> py_exception + datetime" where
  "minus_days now days =
     (if days < - 2147483648 \<or> 2147483647 < days
      then Inl (OverflowError ''Python int too large to convert to C int'')
      else if \<bar>days\<bar> > 999999999
      then Inl (OverflowError (''days='' @ str_int days @ ''; must have magnitude <= 999999999''))
      else let past = now - days * 86400 in
        if past < datetime_min \<or> datetime_max < past
        then Inl (OverflowError ''date value out of range'')
        else Inr past)"

text \<open>\<^verbatim>\<open>_format_youtube_timestamp\<close>, the same method in both search tools.\<close>

definition format_youtube_timestamp :: "services \<Rightarrow> int \<Rightarrow> py_exception + string" where
  "format_youtube_timestamp env days_ago =
     (case minus_days (utcnow env) days_ago of
        Inl e \<Rightarrow> Inl e
      | Inr past_date \<Rightarrow> Inr (isoformat env past_date @ ''Z''))"

record video_summary =
  vs_title :: string
  vs_channel :: string
  vs_views :: int
  vs_likes :: int
  vs_comments :: int
  vs_engagement_rate :: string
  vs_published :: string
  vs_duration :: string
  vs_category :: string
  vs_url :: string
  vs_description_snippet :: string

record search_parameters =
  prm_order :: string
  prm_region_code :: string
  prm_max_results :: int
  prm_published_after_days :: "int option"

record search_data =
  sd_query :: string
  sd_total_results :: int
  sd_videos_found :: nat
  sd_average_engagement :: string
  sd_search_parameters :: search_parameters
  sd_videos :: "video_summary list"

text \<open>The query that \<^verbatim>\<open>VideoSearchTool.call\<close> builds; \<^verbatim>\<open>published_after\<close> is given
  only with a day offset, as a timestamp string that the \<^verbatim>\<open>SearchQuery\<close> model parses.\<close>

definition video_search_query :: "services \<Rightarrow> arguments \<Rightarrow> py_exception + SearchQuery" where
  "video_search_query env args =
     (let query_text = get_or (arg_query args) [];
          max_results = min (get_or (arg_max_results args) 10) 50;
          order = get_or (arg_order args) ''relevance'';
          region_code = get_or (arg_region_code args) ''US''
      in case arg_published_after_days args of
           None \<Rightarrow>
             Inr \<lparr>query = query_text, max_results = max_results, region_code = region_code,
                  language = ''en'', published_after = None, published_before = None,
                  order = order\<rparr>
         | Some days \<Rightarrow>
             (case format_youtube_timestamp env days of
                Inl e \<Rightarrow> Inl e
              | Inr stamp \<Rightarrow>
                  (case validate_datetime env stamp of
                     Inl e \<Rightarrow> Inl e
                   | Inr after \<Rightarrow>
                       Inr \<lparr>query = query_text, max_results = max_results,
                            region_code = region_code, language = ''en'',
                            published_after = Some after, published_before = None,
                            order = order\<rparr>)))"

definition video_search :: "services \<Rightarrow> arguments \<Rightarrow> py_exception + SearchResult" where
  "video_search env args =
     (case video_search_query env args of
        Inl e \<Rightarrow> Inl e
      | Inr q \<Rightarrow> search_videos env q)"

text \<open>One entry of \<^verbatim>\<open>response["videos"]\<close>. A \<^verbatim>\<open>VideoData\<close> has no attribute
  \<^verbatim>\<open>description_snippet\<close>, so that entry is the empty string.\<close>

definition video_summary_of :: "services \<Rightarrow> VideoData \<Rightarrow> py_exception + video_summary" where
  "video_summary_of env video =
     (case engagement_rate (stats video) of
        Inl e \<Rightarrow> Inl e
      | Inr rate \<Rightarrow>
          Inr \<lparr>vs_title = title video,
               vs_channel = channel_title video,
               vs_views = view_count (stats video),
               vs_likes = like_count (stats video),
               vs_comments = comment_count (stats video),
               vs_engagement_rate = format_percent env (Finite rate),
               vs_published = strftime_ymd env (published_at video),
               vs_duration = duration video,
               vs_category = category_value (category video),
               vs_url = ''https://youtube.com/watch?v='' @ video_id video,
               vs_description_snippet = []\<rparr>)"

fun video_summaries :: "services \<Rightarrow> VideoData list \<Rightarrow> py_exception + video_summary list" where
  "video_summaries env [] = Inr []"
| "video_summaries env (v # vs) =
     (case video_summary_of env v of
        Inl e \<Rightarrow> Inl e
      | Inr x \<Rightarrow> (case video_summaries env vs of Inl e \<Rightarrow> Inl e | Inr xs \<Rightarrow> Inr (x # xs)))"

definition search_failure :: "py_exception \<Rightarrow> search_data tool_result" where
  "search_failure e =
     \<lparr>success = False, message = Some ''Failed to search videos'',
      error = Some (str_exc e), data = None\<rparr>"

text \<open>\<^verbatim>\<open>VideoSearchTool.call\<close>.\<close>

definition search_call :: "services \<Rightarrow> arguments \<Rightarrow> search_data tool_result" where
  "search_call env args =
     (case video_search env args of
        Inl e \<Rightarrow> search_failure e
      | Inr results \<Rightarrow>
          (case average_engagement (float_mean env) results of
             Inl e \<Rightarrow> search_failure e
           | Inr avg \<Rightarrow>
               (case video_summaries env (videos results) of
                  Inl e \<Rightarrow> search_failure e
                | Inr summaries \<Rightarrow>
                    \<lparr>success = True, message = None, error = None,
                     data = Some
                       \<lparr>sd_query = get_or (arg_query args) [],
                        sd_total_results = total_results results,
                        sd_videos_found = length (videos results),
                        sd_average_engagement = format_percent env avg,
                        sd_search_parameters =
                          \<lparr>prm_order = get_or (arg_order args) ''relevance'',
                           prm_region_code = get_or (arg_region_code args) ''US'',
                           prm_max_results = min (get_or (arg_max_results args) 10) 50,
                           prm_published_after_days = arg_published_after_days args\<rparr>,
                        sd_videos = summaries\<rparr>\<rparr>)))"

section \<open>Market analysis (tools/market\_analysis\_tool.py)\<close>

text \<open>
  The numerical part of \<^verbatim>\<open>_analyze_market_data\<close> and \<^verbatim>\<open>_generate_market_insights\<close>
  is computed by pandas and TextBlob in floating point; it is a parameter that returns
  these results or raises.
\<close>

record channel_row =
  cr_channel :: string
  cr_total_views :: int
  cr_avg_views :: int
  cr_video_count :: int
  cr_avg_engagement :: string

record frame_report =
  fr_total_views :: int
  fr_average_views :: int
  fr_average_engagement_rate :: string
  fr_market_sentiment :: string
  fr_top_videos :: "(string \<times> int \<times> string) list"
  fr_top_channels :: "channel_row list"
  fr_std_exceeds_mean :: bool
  fr_high_engagement_minutes :: "int option"
  fr_recent_share_exceeded :: bool

type_synonym analytics = "VideoData list \<Rightarrow> py_exception + frame_report"

record market_overview =
  total_views :: int
  average_views :: int
  average_engagement_rate :: string
  unique_creators :: nat
  competition_level :: string
  market_sentiment :: string

record market_analysis =
  overview :: market_overview
  top_performing_videos :: "(string \<times> int \<times> string) list"
  top_channels :: "channel_row list"
  insights :: "string list"

text \<open>\<^verbatim>\<open>df['channel'].nunique()\<close>: the number of distinct channel titles.\<close>

definition unique_channels :: "VideoData list \<Rightarrow> nat" where
  "unique_channels vs = length (remdups (map channel_title vs))"

definition competition_level_of :: "nat \<Rightarrow> string" where
  "competition_level_of n =
     (if n > 30 then ''High'' else if n > 15 then ''Medium'' else ''Low'')"

text \<open>\<^verbatim>\<open>_generate_market_insights\<close>; the data frame is represented by its report.\<close>

definition generate_market_insights :: "frame_report \<Rightarrow> string \<Rightarrow> string \<Rightarrow> string list" where
  "generate_market_insights rep topic level =
     (if fr_std_exceeds_mean rep
      then [''High variance in video performance - opportunity for viral content''] else [])
     @ (case fr_high_engagement_minutes rep of
          None \<Rightarrow> []
        | Some m \<Rightarrow> [''High-engagement videos average '' @ str_int m @ '' minutes duration''])
     @ (if level = ''Low''
        then [''Low competition - good opportunity to establish authority'']
        else if level = ''High''
        then [''High competition - focus on unique angle or underserved subtopics'']
        else [])
     @ (if fr_recent_share_exceeded rep
        then [''High recent activity - trending topic with immediate opportunity''] else [])"

text \<open>\<^verbatim>\<open>_analyze_market_data\<close>.\<close>

definition analyze_market_data ::
  "analytics \<Rightarrow> VideoData list \<Rightarrow> string \<Rightarrow> py_exception + market_analysis" where
  "analyze_market_data frame vs topic =
     (case frame vs of
        Inl e \<Rightarrow> Inl e
      | Inr rep \<Rightarrow>
          let n = unique_channels vs;
              level = competition_level_of n
          in Inr \<lparr>overview =
                    \<lparr>total_views = fr_total_views rep,
                     average_views = fr_average_views rep,
                     average_engagement_rate = fr_average_engagement_rate rep,
                     unique_creators = n,
                     competition_level = level,
                     market_sentiment = fr_market_sentiment rep\<rparr>,
                  top_performing_videos = fr_top_videos rep,
                  top_channels = take 5 (fr_top_channels rep),
                  insights = generate_market_insights rep topic level\<rparr>)"

record market_data =
  md_topic :: string
  md_timeframe_days :: int
  md_videos_analyzed :: nat
  md_analysis :: market_analysis

text \<open>The query that \<^verbatim>\<open>MarketAnalysisTool.call\<close> builds; the timestamp string given for
  \<^verbatim>\<open>published_after\<close> is parsed by the \<^verbatim>\<open>SearchQuery\<close> model.\<close>

definition market_query :: "services \<Rightarrow> arguments \<Rightarrow> py_exception + SearchQuery" where
  "market_query env args =
     (let topic = get_or (arg_topic args) [];
          timeframe_days = get_or (arg_timeframe_days args) 30;
          sample_size = min (get_or (arg_sample_size args) 50) 100
      in case format_youtube_timestamp env timeframe_days of
           Inl e \<Rightarrow> Inl e
         | Inr stamp \<Rightarrow>
             (case validate_datetime env stamp of
                Inl e \<Rightarrow> Inl e
              | Inr after \<Rightarrow>
                  Inr \<lparr>query = topic,
                       max_results = sample_size,
                       region_code = ''US'',
                       language = ''en'',
                       published_after = Some after,
                       published_before = None,
                       order = ''viewCount''\<rparr>))"

definition market_search :: "services \<Rightarrow> arguments \<Rightarrow> py_exception + SearchResult" where
  "market_search env args =
     (case market_query env args of
        Inl e \<Rightarrow> Inl e
      | Inr q \<Rightarrow> search_videos env q)"

definition market_failure :: "py_exception \<Rightarrow> market_data tool_result" where
  "market_failure e =
     \<lparr>success = False, message = Some ''Failed to analyze market'',
      error = Some (str_exc e), data = None\<rparr>"

text \<open>\<^verbatim>\<open>MarketAnalysisTool.call\<close>.\<close>

definition market_call :: "services \<Rightarrow> analytics \<Rightarrow> arguments \<Rightarrow> market_data tool_result" where
  "market_call env frame args =
     (case market_search env args of
        Inl e \<Rightarrow> market_failure e
      | Inr results \<Rightarrow>
          if videos results = []
          then \<lparr>success = False,
                message = Some (''No videos found for topic: '' @ get_or (arg_topic args) []),
                error = None, data = None\<rparr>
          else (case analyze_market_data frame (videos results) (get_or (arg_topic args) []) of
                  Inl e \<Rightarrow> market_failure e
                | Inr analysis \<Rightarrow>
                    \<lparr>success = True, message = None, error = None,
                     data = Some \<lparr>md_topic = get_or (arg_topic args) [],
                                  md_timeframe_days = get_or (arg_timeframe_days args) 30,
                                  md_videos_analyzed = length (videos results),
                                  md_analysis = analysis\<rparr>\<rparr>))"

section \<open>System status (config.py, tools/system\_status\_tool.py)\<close>

text \<open>The class \<^verbatim>\<open>Config\<close>: the three credentials come from the process environment
  (\<^verbatim>\<open>os.getenv\<close>, \<open>None\<close> when unset); \<open>OUTPUT_DIR\<close> is \<^verbatim>\<open>str(Config.OUTPUT_DIR)\<close>.\<close>

record config =
  YOUTUBE_API_KEY :: "string option"
  FIREBASE_PROJECT_ID :: "string option"
  ANTHROPIC_API_KEY :: "string option"
  OUTPUT_DIR :: string

definition MAX_VIDEOS_PER_SEARCH :: int where "MAX_VIDEOS_PER_SEARCH = 50"
definition MCP_SERVER_NAME :: string where "MCP_SERVER_NAME = ''youtube-intelligence''"
definition MCP_SERVER_VERSION :: string where "MCP_SERVER_VERSION = ''1.0.0''"

text \<open>Truth value of an \<^verbatim>\<open>Optional[str]\<close>: \<^verbatim>\<open>None\<close> and the empty string are false.\<close>

definition truthy :: "string option \<Rightarrow> bool" where
  "truthy v = (case v of None \<Rightarrow> False | Some s \<Rightarrow> s \<noteq> [])"

text \<open>What \<^verbatim>\<open>psutil\<close> reports; each probe may raise.\<close>

record metrics =
  cpu_percent :: rat
  memory_percent :: rat
  disk_usage_percent :: rat
  process_count :: nat
  network_connections :: nat

record host =
  boot_time :: "py_exception + rat"
  probe_metrics :: "py_exception + metrics"

datatype metrics_result = Metrics metrics | MetricsError string

datatype config_value = CBool bool | CStr string | CInt int

record status_report =
  server_name :: string
  version :: string
  timestamp :: string
  status :: string
  uptime_seconds :: rat
  configuration :: "(string \<times> config_value) list"
  system_metrics :: "metrics_result option"
  api_status :: "(string \<times> string) list option"

text \<open>\<^verbatim>\<open>_get_uptime\<close>, \<^verbatim>\<open>_get_system_metrics\<close>, \<^verbatim>\<open>_check_api_status\<close>.\<close>

definition get_uptime :: "host \<Rightarrow> rat" where
  "get_uptime h = (case boot_time h of Inl e \<Rightarrow> 0 | Inr t \<Rightarrow> t)"

definition get_system_metrics :: "host \<Rightarrow> metrics_result" where
  "get_system_metrics h =
     (case probe_metrics h of
        Inl e \<Rightarrow> MetricsError ''Unable to retrieve system metrics''
      | Inr m \<Rightarrow> Metrics m)"

definition check_api_status :: "config \<Rightarrow> (string \<times> string) list" where
  "check_api_status cfg =
     [(''youtube_api'', if truthy (YOUTUBE_API_KEY cfg) then ''configured'' else ''not_configured''),
      (''firebase'', if truthy (FIREBASE_PROJECT_ID cfg) then ''configured'' else ''not_configured''),
      (''claude_api'', if truthy (ANTHROPIC_API_KEY cfg) then ''configured'' else ''not_configured'')]"

text \<open>\<^verbatim>\<open>SystemStatusTool.call\<close>. Nothing in the \<^verbatim>\<open>try\<close> body raises (the two probes
  catch their own exceptions), so the failure branch of the source is never taken.\<close>

definition status_call :: "config \<Rightarrow> services \<Rightarrow> host \<Rightarrow> arguments \<Rightarrow> status_report tool_result" where
  "status_call cfg env h args =
     (let include_detailed = get_or (arg_include_detailed args) False;
          st = \<lparr>server_name = MCP_SERVER_NAME,
                version = MCP_SERVER_VERSION,
                timestamp = isoformat env (utcnow env) @ ''Z'',
                status = ''healthy'',
                uptime_seconds = get_uptime h,
                configuration =
                  [(''youtube_api_configured'', CBool (truthy (YOUTUBE_API_KEY cfg))),
                   (''firebase_configured'', CBool (truthy (FIREBASE_PROJECT_ID cfg))),
                   (''claude_api_configured'', CBool (truthy (ANTHROPIC_API_KEY cfg))),
                   (''output_directory'', CStr (OUTPUT_DIR cfg)),
                   (''max_videos_per_search'', CInt MAX_VIDEOS_PER_SEARCH)],
                system_metrics = (if include_detailed then Some (get_system_metrics h) else None),
                api_status = (if include_detailed then Some (check_api_status cfg) else None)\<rparr>
      in \<lparr>success = True, message = None, error = None, data = Some st\<rparr>)"

text \<open>\<^verbatim>\<open>result['status']['configuration']\<close> of a status result.\<close>

definition configuration_of :: "status_report tool_result \<Rightarrow> (string \<times> config_value) list" where
  "configuration_of r = (case data r of None \<Rightarrow> [] | Some st \<Rightarrow> configuration st)"

section \<open>Tool registry and dispatch (mcp\_server.py)\<close>

datatype json =
  JNull | JBool bool | JInt int | JStr string | JList "json list" | JObj "(string \<times> json) list"

text \<open>A tool instance: the descriptor fields and the \<^verbatim>\<open>call\<close> method. The three
  results are injected into one type.\<close>

datatype payload = SearchData search_data | MarketData market_data | StatusData status_report

record tool =
  tool_name :: string
  tool_description :: string
  tool_inputSchema :: json
  tool_call :: "arguments \<Rightarrow> py_exception + payload tool_result"

text \<open>The descriptor \<^verbatim>\<open>mcp.types.Tool\<close> and the reply item \<^verbatim>\<open>TextContent\<close>.\<close>

record Tool =
  t_name :: string
  t_description :: string
  t_inputSchema :: json

datatype TextContent = TextContent (content_type: string) (content_text: string)

definition search_schema :: json where
  "search_schema =
     JObj [(''type'', JStr ''object''),
           (''properties'', JObj
              [(''query'', JObj [(''type'', JStr ''string''),
                                 (''description'', JStr ''Search query for YouTube videos'')]),
               (''max_results'', JObj [(''type'', JStr ''integer''),
                  (''description'', JStr ''Maximum number of results to return (default: 10)''),
                  (''default'', JInt 10)]),
               (''order'', JObj [(''type'', JStr ''string''),
                  (''description'', JStr ''Sort order: relevance, date, rating, viewCount''),
                  (''default'', JStr ''relevance'')]),
               (''region_code'', JObj [(''type'', JStr ''string''),
                  (''description'', JStr ''Region code for localized results (default: US)''),
                  (''default'', JStr ''US'')]),
               (''published_after_days'', JObj [(''type'', JStr ''integer''),
                  (''description'', JStr ''Filter videos published within last N days (optional)''),
                  (''default'', JNull)])]),
           (''required'', JList [JStr ''query''])]"

definition market_schema :: json where
  "market_schema =
     JObj [(''type'', JStr ''object''),
           (''properties'', JObj
              [(''topic'', JObj [(''type'', JStr ''string''),
                                 (''description'', JStr ''Topic or niche to analyze'')]),
               (''timeframe_days'', JObj [(''type'', JStr ''integer''),
                  (''description'', JStr ''Analyze videos from last N days (default: 30)''),
                  (''default'', JInt 30)]),
               (''sample_size'', JObj [(''type'', JStr ''integer''),
                  (''description'', JStr ''Number of videos to analyze (default: 50)''),
                  (''default'', JInt 50)])]),
           (''required'', JList [JStr ''topic''])]"

definition status_schema :: json where
  "status_schema =
     JObj [(''type'', JStr ''object''),
           (''properties'', JObj
              [(''include_detailed'', JObj [(''type'', JStr ''boolean''),
                  (''description'', JStr ''Include detailed system metrics''),
                  (''default'', JBool False)])])]"

text \<open>What the three registered tools are built from.\<close>

record handlers =
  h_config :: config
  h_services :: services
  h_analytics :: analytics
  h_host :: host

definition inject :: "('a \<Rightarrow> payload) \<Rightarrow> 'a tool_result \<Rightarrow> payload tool_result" where
  "inject c r =
     \<lparr>success = success r, message = message r, error = error r,
      data = map_option c (data r)\<rparr>"

text \<open>The dictionary \<^verbatim>\<open>youtube_tools\<close>, in insertion order.\<close>

definition youtube_tools :: "handlers \<Rightarrow> (string \<times> tool) list" where
  "youtube_tools hs =
     [(''search_videos'',
        \<lparr>tool_name = ''search_videos'',
         tool_description = ''Search YouTube videos with detailed analysis and insights'',
         tool_inputSchema = search_schema,
         tool_call = (\<lambda>args. Inr (inject SearchData (search_call (h_services hs) args)))\<rparr>),
      (''analyze_market'',
        \<lparr>tool_name = ''analyze_market'',
         tool_description = ''Analyze YouTube market trends and competition for specific topics'',
         tool_inputSchema = market_schema,
         tool_call = (\<lambda>args. Inr (inject MarketData
                        (market_call (h_services hs) (h_analytics hs) args)))\<rparr>),
      (''system_status'',
        \<lparr>tool_name = ''system_status'',
         tool_description =
           ''Get YouTube Intelligence MCP Server system status and health metrics'',
         tool_inputSchema = status_schema,
         tool_call = (\<lambda>args. Inr (inject StatusData
                        (status_call (h_config hs) (h_services hs) (h_host hs) args)))\<rparr>)]"

text \<open>\<^verbatim>\<open>list_tools\<close>; \<open>initialized\<close> is the module variable \<^verbatim>\<open>_server_initialized\<close>.\<close>

definition list_tools :: "bool \<Rightarrow> (string \<times> tool) list \<Rightarrow> Tool list" where
  "list_tools initialized tools =
     (if \<not> initialized then []
      else map (\<lambda>(key, tool_instance).
                  \<lparr>t_name = tool_name tool_instance,
                   t_description = tool_description tool_instance,
                   t_inputSchema = tool_inputSchema tool_instance\<rparr>) tools)"

text \<open>\<^verbatim>\<open>repr\<close> of a string and \<^verbatim>\<open>str\<close> of a list of strings, for text without control
  characters.\<close>

definition repr_char :: "char \<Rightarrow> char \<Rightarrow> string" where
  "repr_char q c = (if c = CHR 0x5C \<or> c = q then [CHR 0x5C, c] else [c])"

definition py_repr_str :: "string \<Rightarrow> string" where
  "py_repr_str s =
     (let q = (if CHR 0x27 \<in> set s \<and> CHR 0x22 \<notin> set s then CHR 0x22 else CHR 0x27)
      in [q] @ concat (map (repr_char q) s) @ [q])"

definition py_str_list :: "string list \<Rightarrow> string" where
  "py_str_list xs = ''['' @ join '', '' (map py_repr_str xs) @ '']''"

text \<open>
  \<^verbatim>\<open>call_tool\<close>. \<open>fmt\<close> is \<^verbatim>\<open>format_tool_response\<close>, which returns a string on every
  input since its body catches every exception. A raise of the handler reaches the
  \<^verbatim>\<open>except Exception\<close> of \<^verbatim>\<open>call_tool\<close>.
\<close>

definition call_tool ::
  "(string \<Rightarrow> payload tool_result \<Rightarrow> string) \<Rightarrow> bool \<Rightarrow> (string \<times> tool) list
     \<Rightarrow> string \<Rightarrow> arguments \<Rightarrow> TextContent list" where
  "call_tool fmt initialized tools name arguments =
     (if \<not> initialized
      then [TextContent ''text'' (''Error: '' @
              ''Server not yet initialized. Please wait for initialization to complete.'')]
      else
        (case map_of tools name of
           None \<Rightarrow>
             [TextContent ''text'' (''Error: '' @
                ''Tool '' @ [CHR 0x27] @ name @ [CHR 0x27] @ '' not found. Available tools: ''
                @ py_str_list (map fst tools))]
         | Some tool_instance \<Rightarrow>
             (case tool_call tool_instance arguments of
                Inl e \<Rightarrow>
                  [TextContent ''text'' (''Error executing tool '' @ [CHR 0x27] @ name
                     @ [CHR 0x27] @ '': '' @ str_exc e)]
              | Inr result \<Rightarrow>
                  [TextContent ''text''
                     (if success result then fmt name result
                      else ''Tool execution failed: '' @ get_or (message result) ''Unknown error'')])))"

section \<open>A sample environment\<close>

text \<open>
  A concrete provider, clock and library, on which the functions above are run. The
  duration parser reads the designator forms \<^verbatim>\<open>P[nD][T[nH][nM][nS]]\<close> with whole numbers,
  which is what the provider emits, and rejects every other string.
\<close>

definition read_component :: "char \<Rightarrow> string \<Rightarrow> nat \<times> string" where
  "read_component d s =
     (let ds = takeWhile (\<lambda>c. digit_of c \<noteq> None) s;
          rest = dropWhile (\<lambda>c. digit_of c \<noteq> None) s
      in case rest of
           [] \<Rightarrow> (0, s)
         | c # r \<Rightarrow>
             if ds \<noteq> [] \<and> c = d
             then (case digits_value 0 ds of None \<Rightarrow> (0, s) | Some n \<Rightarrow> (n, r))
             else (0, s))"

definition sample_parse_duration :: "string \<Rightarrow> int option" where
  "sample_parse_duration s =
     (case s of
        [] \<Rightarrow> None
      | p # r \<Rightarrow>
          if p \<noteq> CHR ''P'' \<or> r = [] then None
          else
            (case read_component (CHR ''D'') r of
               (d, r1) \<Rightarrow>
                 (case r1 of
                    [] \<Rightarrow> Some (int d * 86400)
                  | t # r2 \<Rightarrow>
                      if t \<noteq> CHR ''T'' then None
                      else
                        (case read_component (CHR ''H'') r2 of
                           (h, r3) \<Rightarrow>
                             (case read_component (CHR ''M'') r3 of
                                (m, r4) \<Rightarrow>
                                  (case read_component (CHR ''S'') r4 of
                                     (sec, r5) \<Rightarrow>
                                       if r5 = []
                                       then Some (int d * 86400 + int h * 3600 + int m * 60
                                                  + int sec)
                                       else None))))))"

definition sample_snippet :: "string \<Rightarrow> string \<Rightarrow> raw_snippet" where
  "sample_snippet ttl chan =
     \<lparr>sn_title = Some ttl,
      sn_description = Some ''An introduction'',
      sn_channelId = Some (''id-'' @ chan),
      sn_channelTitle = Some chan,
      sn_publishedAt = Some ''2024-04-20T08:00:00Z'',
      sn_tags = None,
      sn_thumbnail_high_url = None\<rparr>"

definition sample_item :: "string \<Rightarrow> string \<Rightarrow> string \<Rightarrow> string \<Rightarrow> raw_item" where
  "sample_item vid ttl chan dur =
     \<lparr>it_id = Some vid,
      it_snippet = Some (sample_snippet ttl chan),
      it_statistics = Some \<lparr>st_viewCount = Some ''1000'', st_likeCount = Some ''50'',
                            st_commentCount = Some ''10''\<rparr>,
      it_contentDetails = Some \<lparr>cd_duration = Some dur\<rparr>\<rparr>"

text \<open>The provider's catalogue: the record \<open>v3\<close> carries a malformed duration string.\<close>

definition sample_catalogue :: "(string \<times> raw_item) list" where
  "sample_catalogue =
     [(''v1'', sample_item ''v1'' ''Python Tutorial'' ''Alpha'' ''PT15M30S''),
      (''v2'', sample_item ''v2'' ''Chess game review'' ''Beta'' ''PT1H''),
      (''v3'', sample_item ''v3'' ''Cooking pasta'' ''Gamma'' ''fifteen minutes'')]"

definition sample_search_list :: "search_params \<Rightarrow> py_exception + search_response" where
  "sample_search_list p =
     (if sp_maxResults p < 0 then Inl (HttpError ''invalid maxResults'')
      else if sp_q p = ''python''
      then Inr \<lparr>sr_items = Some (take (nat (sp_maxResults p))
                   [\<lparr>si_videoId = Some ''v1''\<rparr>, \<lparr>si_videoId = Some ''v2''\<rparr>,
                    \<lparr>si_videoId = Some ''v3''\<rparr>]),
                sr_totalResults = Some 3\<rparr>
      else Inr \<lparr>sr_items = Some [], sr_totalResults = Some 0\<rparr>)"

definition sample_videos_list :: "string \<Rightarrow> string list \<Rightarrow> py_exception + raw_item list option" where
  "sample_videos_list part ids = Inr (Some (List.map_filter (map_of sample_catalogue) ids))"

definition sample_isoformat :: "datetime \<Rightarrow> string" where
  "sample_isoformat t =
     (if t = 1714564800 then ''2024-05-01T12:00:00''
      else if t = 1711972800 then ''2024-04-01T12:00:00''
      else ''1970-01-01T00:00:00'')"

definition sample_validate_datetime :: "string \<Rightarrow> py_exception + datetime" where
  "sample_validate_datetime s =
     (if s = ''2024-04-01T12:00:00Z'' then Inr 1711972800
      else Inl (ValidationError ''published_after: invalid datetime format''))"

definition sample_format_percent :: "pyfloat \<Rightarrow> string" where
  "sample_format_percent x =
     (if x = Finite (nearest_double 3 50) then ''6.00%'' else ''0.00%'')"

definition sample_float_mean :: "rat list \<Rightarrow> pyfloat" where
  "sample_float_mean xs =
     (case quotient_of (sum_list xs / of_nat (length xs)) of
        (a, b) \<Rightarrow> Finite (nearest_double a b))"

definition sample_strftime_ymd :: "datetime \<Rightarrow> string" where
  "sample_strftime_ymd t = (if t = 1713600000 then ''2024-04-20'' else ''1970-01-01'')"

definition sample_services :: services where
  "sample_services =
     \<lparr>search_list = sample_search_list,
      videos_list = sample_videos_list,
      parse_duration = sample_parse_duration,
      fromisoformat = map_of [(''2024-04-20T08:00:00+00:00'', 1713600000)],
      isoformat = sample_isoformat,
      validate_datetime = sample_validate_datetime,
      format_percent = sample_format_percent,
      float_mean = sample_float_mean,
      strftime_ymd = sample_strftime_ymd,
      utcnow = 1714564800\<rparr>"

definition sample_analytics :: analytics where
  "sample_analytics vs =
     Inr \<lparr>fr_total_views = sum_list (map (\<lambda>v. view_count (stats v)) vs),
          fr_average_views = 1000,
          fr_average_engagement_rate = ''6.00%'',
          fr_market_sentiment = ''0.00'',
          fr_top_videos = [],
          fr_top_channels = [],
          fr_std_exceeds_mean = False,
          fr_high_engagement_minutes = Some 15,
          fr_recent_share_exceeded = False\<rparr>"

definition sample_config :: config where
  "sample_config =
     \<lparr>YOUTUBE_API_KEY = Some ''yt-key-1'',
      FIREBASE_PROJECT_ID = None,
      ANTHROPIC_API_KEY = Some ''sk-first'',
      OUTPUT_DIR = ''/srv/app/output''\<rparr>"

definition sample_host :: host where
  "sample_host = \<lparr>boot_time = Inr 1714000000, probe_metrics = Inl (RuntimeError ''denied'')\<rparr>"

definition sample_handlers :: handlers where
  "sample_handlers =
     \<lparr>h_config = sample_config,
      h_services = sample_services,
      h_analytics = sample_analytics,
      h_host = sample_host\<rparr>"

definition sample_fmt :: "string \<Rightarrow> payload tool_result \<Rightarrow> string" where
  "sample_fmt name result = ''Results from '' @ name"


definition no_arguments :: arguments where
  "no_arguments =
     \<lparr>arg_query = None, arg_max_results = None, arg_order = None, arg_region_code = None,
      arg_published_after_days = None, arg_topic = None, arg_timeframe_days = None,
      arg_sample_size = None, arg_include_detailed = None\<rparr>"


definition python_arguments :: arguments where
  "python_arguments = no_arguments\<lparr>arg_topic := Some ''python'', arg_sample_size := Some 80\<rparr>"

definition sample_config_rotated :: config where
  "sample_config_rotated =
     \<lparr>YOUTUBE_API_KEY = Some ''yt-key-2'',
      FIREBASE_PROJECT_ID = Some [],
      ANTHROPIC_API_KEY = Some ''sk-second'',
      OUTPUT_DIR = ''/srv/app/output''\<rparr>"

definition bad_item :: raw_item where
  "bad_item = sample_item ''v3'' ''Cooking pasta'' ''Gamma'' ''fifteen minutes''"

text \<open>What the provider promises: a search returns at most \<^verbatim>\<open>maxResults\<close> items, and
  a detail request returns at most one record per id.\<close>

definition provider_respects_limits :: "services \<Rightarrow> bool" where
  "provider_respects_limits env \<longleftrightarrow>
     (\<forall>p r items. search_list env p = Inr r \<longrightarrow> sr_items r = Some items
         \<longrightarrow> int (length items) \<le> sp_maxResults p)
     \<and> (\<forall>part ids items. videos_list env part ids = Inr (Some items)
         \<longrightarrow> length items \<le> length ids)"

definition sample_video :: "nat \<Rightarrow> VideoData" where
  "sample_video k =
     \<lparr>video_id = replicate k (CHR ''v''), title = ''Video'', description = [],
      channel_id = replicate k (CHR ''c''), channel_title = replicate k (CHR ''c''),
      published_at = 1713600000, duration = ''PT1M'', category = OTHER,
      stats = \<lparr>view_count = 10, like_count = 1, comment_count = 0, duration_seconds = 60\<rparr>,
      tags = [], thumbnail_url = None, sentiment_score = None, credibility_score = None,
      trending_score = None\<rparr>"

text \<open>Videos of different channels (different channel ids) that carry one channel title.\<close>

definition shared_title_video :: "nat \<Rightarrow> VideoData" where
  "shared_title_video k =
     \<lparr>video_id = replicate k (CHR ''v''), title = ''Video'', description = [],
      channel_id = replicate k (CHR ''c''), channel_title = ''Daily News'',
      published_at = 1713600000, duration = ''PT1M'', category = OTHER,
      stats = \<lparr>view_count = 10, like_count = 1, comment_count = 0, duration_seconds = 60\<rparr>,
      tags = [], thumbnail_url = None, sentiment_score = None, credibility_score = None,
      trending_score = None\<rparr>"

text \<open>The creator count and the competition level of an analysis, when there is one.\<close>

definition competition_of :: "py_exception + market_analysis \<Rightarrow> (nat \<times> string) option" where
  "competition_of r =
     (case r of
        Inl e \<Rightarrow> None
      | Inr a \<Rightarrow> Some (unique_creators (overview a), competition_level (overview a)))"

section \<open>Basic facts about the string primitives\<close>

lemma startswith_iff: "startswith w s \<longleftrightarrow> (\<exists>post. s = w @ post)"
  by (induction w s rule: startswith.induct) auto

lemma py_in_iff: "py_in w s \<longleftrightarrow> (\<exists>pre post. s = pre @ w @ post)"
proof (induction s)
  case Nil
  then show ?case by auto
next
  case (Cons c cs)
  show ?case
  proof
    assume "py_in w (c # cs)"
    then consider "startswith w (c # cs)" | "py_in w cs" by auto
    then show "\<exists>pre post. c # cs = pre @ w @ post"
    proof cases
      case 1
      then obtain post where "c # cs = w @ post" by (auto simp: startswith_iff)
      then have "c # cs = [] @ w @ post" by simp
      then show ?thesis by blast
    next
      case 2
      then obtain pre post where "cs = pre @ w @ post" using Cons.IH by auto
      then have "c # cs = (c # pre) @ w @ post" by simp
      then show ?thesis by blast
    qed
  next
    assume "\<exists>pre post. c # cs = pre @ w @ post"
    then obtain pre post where eq: "c # cs = pre @ w @ post" by auto
    show "py_in w (c # cs)"
    proof (cases pre)
      case Nil
      with eq have "startswith w (c # cs)" by (auto simp: startswith_iff)
      then show ?thesis by simp
    next
      case (Cons p ps)
      with eq have "cs = ps @ w @ post" by simp
      then have "py_in w cs" using Cons.IH by auto
      then show ?thesis by simp
    qed
  qed
qed

lemma any_word_in_iff:
  "any_word_in ws content \<longleftrightarrow> (\<exists>w \<in> set ws. \<exists>pre post. content = pre @ w @ post)"
  by (simp add: any_word_in_def list_ex_iff py_in_iff)

lemma py_in_suffix: "py_in w (pre @ w)"
proof -
  have "pre @ w = pre @ w @ []" by simp
  then show ?thesis unfolding py_in_iff by blast
qed

lemma unique_channels_card: "unique_channels vs = card (channel_title ` set vs)"
  by (simp add: unique_channels_def length_remdups_card_conv)


section \<open>Facts about rounding to a double\<close>

lemma round_half_even_error: "\<bar>of_int (round_half_even x) - x\<bar> \<le> 1 / 2"
proof -
  have "of_int \<lfloor>x\<rfloor> \<le> x" "x < of_int \<lfloor>x\<rfloor> + 1" by linarith+
  then show ?thesis
    by (auto simp: round_half_even_def Let_def abs_le_iff)
qed

lemma floor_log2_le:
  assumes "0 < a" and "0 < b"
  shows "(2::rat) powi floor_log2 a b \<le> of_int a / of_int b"
proof (cases "(2::rat) powi (bitlen a - bitlen b) \<le> of_int a / of_int b")
  case True
  then show ?thesis by (simp add: floor_log2_def)
next
  case False
  have la: "(2::int) ^ nat (bitlen a - 1) \<le> a" using bitlen_bounds [OF assms(1)] by simp
  have ub: "b < 2 ^ nat (bitlen b)" using bitlen_bounds [OF assms(2)] by simp
  have pa: "1 \<le> bitlen a"
  proof (rule ccontr)
    assume "\<not> 1 \<le> bitlen a"
    then have "nat (bitlen a) = 0" by simp
    with bitlen_bounds [OF assms(1)] have "a < 1" by simp
    with assms(1) show False by simp
  qed
  have pb: "0 \<le> bitlen b" by (rule bitlen_nonneg)
  have "(2::rat) powi (bitlen a - 1 - bitlen b) = 2 powi (bitlen a - 1) / 2 powi bitlen b"
    using power_int_diff [of "2::rat" "bitlen a - 1" "bitlen b"] by simp
  also have "\<dots> = 2 ^ nat (bitlen a - 1) / 2 ^ nat (bitlen b)"
    using pa pb by (simp add: power_int_def)
  also have "\<dots> \<le> of_int a / of_int b"
  proof -
    have "(2::rat) ^ nat (bitlen a - 1) \<le> of_int a"
      using la by (metis of_int_le_iff of_int_numeral of_int_power)
    moreover have "(of_int b :: rat) \<le> 2 ^ nat (bitlen b)"
      using ub by (metis less_imp_le of_int_le_iff of_int_numeral of_int_power)
    moreover have "(0::rat) < of_int b" using assms(2) by simp
    moreover have "(0::rat) \<le> of_int a" using assms(1) by simp
    ultimately show ?thesis by (intro frac_le)
  qed
  finally have le: "(2::rat) powi (bitlen a - 1 - bitlen b) \<le> of_int a / of_int b" .
  have "floor_log2 a b = bitlen a - 1 - bitlen b"
    using False by (simp add: floor_log2_def)
  with le show ?thesis by (simp only:)
qed

lemma round_scaled_error:
  "\<bar>of_int (round_half_even (q / 2 powi e)) * 2 powi e - q\<bar> \<le> 2 powi (e - 1)"
proof -
  define m where "m = round_half_even (q / 2 powi e)"
  have pos: "(0::rat) < 2 powi e" by simp
  have "\<bar>of_int m - q / 2 powi e\<bar> \<le> 1 / 2"
    unfolding m_def by (rule round_half_even_error)
  then have "\<bar>of_int m - q / 2 powi e\<bar> * 2 powi e \<le> 1 / 2 * 2 powi e"
    using pos by (intro mult_right_mono) auto
  moreover have "\<bar>of_int m - q / 2 powi e\<bar> * 2 powi e = \<bar>of_int m * 2 powi e - q\<bar>"
  proof -
    have "\<bar>of_int m - q / 2 powi e\<bar> * 2 powi e = \<bar>(of_int m - q / 2 powi e) * 2 powi e\<bar>"
      using pos by (simp add: abs_mult)
    also have "(of_int m - q / 2 powi e) * 2 powi e = of_int m * 2 powi e - q"
      using pos by (simp add: algebra_simps)
    finally show ?thesis .
  qed
  moreover have "1 / 2 * (2::rat) powi e = 2 powi (e - 1)"
    using power_int_diff [of "2::rat" e 1] by simp
  ultimately show ?thesis unfolding m_def by simp
qed

lemma nearest_double_error:
  assumes "b \<noteq> 0"
  shows "\<bar>nearest_double a b - of_int a / of_int b\<bar>
           \<le> max (\<bar>of_int a / of_int b\<bar> * 2 powi (- 53)) (2 powi (- 1075))"
proof (cases "a = 0")
  case True
  have "(0::rat) \<le> 2 powi (- 1075)" by (rule zero_le_power_int) simp
  then have "(0::rat) \<le> max (\<bar>of_int a / of_int b\<bar> * 2 powi (- 53)) (2 powi (- 1075))"
    by (rule max.coboundedI2)
  moreover have "\<bar>nearest_double a b - of_int a / of_int b\<bar> = 0"
    using True by (simp add: nearest_double_def)
  ultimately show ?thesis by (simp only:)
next
  case False
  define q :: rat where "q = of_int a / of_int b"
  define k where "k = floor_log2 \<bar>a\<bar> \<bar>b\<bar>"
  define e where "e = max (k - 52) (- 1074)"
  have nd: "nearest_double a b = of_int (round_half_even (q / 2 powi e)) * 2 powi e"
    using False by (simp add: nearest_double_def Let_def q_def k_def e_def)
  have err: "\<bar>nearest_double a b - q\<bar> \<le> 2 powi (e - 1)"
    unfolding nd by (rule round_scaled_error)
  have kq: "(2::rat) powi k \<le> \<bar>q\<bar>"
  proof -
    have "(2::rat) powi k \<le> of_int \<bar>a\<bar> / of_int \<bar>b\<bar>"
      unfolding k_def using False assms by (intro floor_log2_le) auto
    then show ?thesis by (simp add: q_def)
  qed
  show ?thesis
  proof (cases "k - 52 \<le> - 1074")
    case True
    then have "e - 1 = - 1075" by (simp add: e_def)
    with err have "\<bar>nearest_double a b - q\<bar> \<le> 2 powi (- 1075)" by (simp only:)
    then have "\<bar>nearest_double a b - q\<bar> \<le> max (\<bar>q\<bar> * 2 powi (- 53)) (2 powi (- 1075))"
      by (rule max.coboundedI2)
    then show ?thesis unfolding q_def .
  next
    case False
    then have "e - 1 = k + (- 53)" by (simp add: e_def)
    with err have "\<bar>nearest_double a b - q\<bar> \<le> 2 powi (k + (- 53))" by (simp only:)
    also have "(2::rat) powi (k + (- 53)) = 2 powi k * 2 powi (- 53)"
      by (rule power_int_add) simp
    also have "\<dots> \<le> \<bar>q\<bar> * 2 powi (- 53)"
      using kq by (intro mult_right_mono zero_le_power_int) auto
    finally have "\<bar>nearest_double a b - q\<bar> \<le> max (\<bar>q\<bar> * 2 powi (- 53)) (2 powi (- 1075))"
      by (rule max.coboundedI1)
    then show ?thesis unfolding q_def .
  qed
qed

lemma nearest_double_below:
  assumes "b \<noteq> 0" and "\<bar>of_int a / of_int b :: rat\<bar> < 2 ^ 1023"
  shows "\<bar>nearest_double a b\<bar> < 2 ^ 1024"
proof -
  define q :: rat where "q = of_int a / of_int b"
  define B :: rat where "B = 2 ^ 1023"
  have B1: "1 \<le> B" unfolding B_def by (rule one_le_power) simp
  have B2: "(2::rat) ^ 1024 = B + B" unfolding B_def by simp
  have s1: "(2::rat) powi (- 53) \<le> 1" by simp
  have s2: "(2::rat) powi (- 1075) \<le> 1" by simp
  have qB: "\<bar>q\<bar> < B" using assms(2) by (simp only: q_def B_def)
  have "\<bar>q\<bar> * 2 powi (- 53) \<le> \<bar>q\<bar> * 1"
    using s1 by (intro mult_left_mono) auto
  then have "\<bar>q\<bar> * 2 powi (- 53) \<le> B" using qB by simp
  moreover have "(2::rat) powi (- 1075) \<le> B" using s2 B1 by (rule order_trans)
  ultimately have m: "max (\<bar>q\<bar> * 2 powi (- 53)) (2 powi (- 1075)) \<le> B"
    by (rule max.boundedI)
  have "\<bar>nearest_double a b - q\<bar> \<le> max (\<bar>q\<bar> * 2 powi (- 53)) (2 powi (- 1075))"
    unfolding q_def using assms(1) by (rule nearest_double_error)
  then have "\<bar>nearest_double a b - q\<bar> \<le> B" using m by (rule order_trans)
  with qB have "\<bar>nearest_double a b\<bar> < B + B" by linarith
  then show ?thesis by (simp only: B2)
qed

section \<open>Facts about the search service\<close>

lemma length_fetch_video_batch:
  assumes "\<forall>part ids items. videos_list env part ids = Inr (Some items) \<longrightarrow> length items \<le> length ids"
  shows "length (fetch_video_batch env ids) \<le> length ids"
proof (cases "videos_list env ''snippet,statistics,contentDetails'' ids")
  case (Inl e)
  then show ?thesis by (simp add: fetch_video_batch_def)
next
  case (Inr r)
  show ?thesis
  proof (cases r)
    case None
    with Inr show ?thesis by (simp add: fetch_video_batch_def)
  next
    case (Some items)
    with Inr assms have "length items \<le> length ids" by blast
    moreover have "length (List.map_filter (parse_video_item env) items) \<le> length items"
      by (simp add: map_filter_def)
    ultimately show ?thesis using Inr Some by (simp add: fetch_video_batch_def)
  qed
qed

lemma length_video_details_from:
  assumes "\<forall>part ids items. videos_list env part ids = Inr (Some items) \<longrightarrow> length items \<le> length ids"
  shows "length (video_details_from env ids i) \<le> length ids - i"
  using assms
proof (induction env ids i rule: video_details_from.induct)
  case (1 env ids i)
  show ?case
  proof (cases "i < length ids")
    case True
    have batch: "length (fetch_video_batch env (take 50 (drop i ids))) \<le> min 50 (length ids - i)"
      using length_fetch_video_batch [OF "1.prems", of "take 50 (drop i ids)"] by simp
    have rest: "length (video_details_from env ids (i + 50)) \<le> length ids - (i + 50)"
      using "1.IH" [OF True "1.prems"] .
    have "video_details_from env ids i
            = fetch_video_batch env (take 50 (drop i ids)) @ video_details_from env ids (i + 50)"
      using True by (subst video_details_from.simps) simp
    then have "length (video_details_from env ids i)
            = length (fetch_video_batch env (take 50 (drop i ids)))
              + length (video_details_from env ids (i + 50))"
      by simp
    with batch rest show ?thesis by arith
  next
    case False
    then show ?thesis by (subst video_details_from.simps) simp
  qed
qed

lemma length_get_video_details:
  assumes "\<forall>part ids items. videos_list env part ids = Inr (Some items) \<longrightarrow> length items \<le> length ids"
  shows "length (get_video_details env ids) \<le> length ids"
  using length_video_details_from [OF assms, of ids 0] by (simp add: get_video_details_def)

lemma video_ids_of_length: "video_ids_of items = Inr ids \<Longrightarrow> length ids = length items"
proof (induction items arbitrary: ids)
  case Nil
  then show ?case by simp
next
  case (Cons item items)
  show ?case
  proof (cases "si_videoId item")
    case None
    with Cons.prems show ?thesis by simp
  next
    case (Some v)
    show ?thesis
    proof (cases "video_ids_of items")
      case (Inl e)
      with Some Cons.prems show ?thesis by simp
    next
      case (Inr vs)
      with Some Cons.prems have "ids = v # vs" by simp
      with Cons.IH [OF Inr] show ?thesis by simp
    qed
  qed
qed

lemma search_videos_length:
  assumes "provider_respects_limits env" and "search_videos env q = Inr results"
  shows "int (length (videos results)) \<le> min (max_results q) 50"
proof -
  from assms(2) obtain response items ids where
    resp: "search_list env (build_search_params env q) = Inr response" and
    items: "sr_items response = Some items" and
    ids: "video_ids_of items = Inr ids" and
    res: "videos results = get_video_details env ids"
    by (auto simp: search_videos_def split: sum.splits option.splits)
  from assms(1) resp items have "int (length items) \<le> sp_maxResults (build_search_params env q)"
    unfolding provider_respects_limits_def by blast
  then have "int (length items) \<le> min (max_results q) 50"
    by (simp add: build_search_params_def)
  moreover have "length ids = length items" using ids by (rule video_ids_of_length)
  moreover have "length (get_video_details env ids) \<le> length ids"
    using assms(1) length_get_video_details unfolding provider_respects_limits_def by blast
  ultimately show ?thesis using res by simp
qed

lemma sample_provider_respects_limits: "provider_respects_limits sample_services"
  unfolding provider_respects_limits_def
proof (intro conjI allI impI)
  fix p r items
  assume "search_list sample_services p = Inr r" and "sr_items r = Some items"
  then show "int (length items) \<le> sp_maxResults p"
    by (auto simp: sample_services_def sample_search_list_def split: if_splits)
next
  fix part ids items
  assume "videos_list sample_services part ids = Inr (Some items)"
  then show "length items \<le> length ids"
    by (auto simp: sample_services_def sample_videos_list_def map_filter_def)
qed

section \<open>Runs of the sample environment\<close>

lemma sample_channels_card: "card (channel_title ` set (map sample_video [0..<n])) = n"
proof -
  have "inj_on (\<lambda>k. channel_title (sample_video k)) {0..<n}"
    by (auto simp: inj_on_def sample_video_def)
  then have "card ((\<lambda>k. channel_title (sample_video k)) ` {0..<n}) = n"
    by (simp add: card_image)
  then show ?thesis by (simp add: image_image)
qed

lemma sample_rust_search:
  "market_search sample_services (no_arguments\<lparr>arg_topic := Some ''rust''\<rparr>)
     = Inr \<lparr>sr_query = \<lparr>query = ''rust'', max_results = 50, region_code = ''US'',
                language = ''en'', published_after = Some 1711972800,
                published_before = None, order = ''viewCount''\<rparr>,
            videos = [], total_results = 0\<rparr>"
  by code_simp

section \<open>Claims\<close>

text \<open>
  C1. For every video record with a positive view\_count the engagement rate is the result
  of Python's true division of like\_count + comment\_count by view\_count: the double
  nearest to the quotient (within half a unit in the last place of it), returned whenever
  the quotient is below \<open>2^1023\<close> in magnitude, or an \<^verbatim>\<open>OverflowError\<close> when the rounded
  quotient is beyond the finite doubles. With view\_count 0 the rate is exactly 0, and the
  computation never raises \<^verbatim>\<open>ZeroDivisionError\<close>.
\<close>

theorem C1_engagement_rate:
  "(0 < view_count s \<longrightarrow>
      (engagement_rate s = Inr (nearest_double (like_count s + comment_count s) (view_count s))
         \<and> \<bar>nearest_double (like_count s + comment_count s) (view_count s)\<bar> < 2 ^ 1024
       \<or> engagement_rate s
             = Inl (OverflowError ''integer division result too large for a float'')
         \<and> 2 ^ 1024 \<le> \<bar>nearest_double (like_count s + comment_count s) (view_count s)\<bar>))
   \<and> (0 < view_count s \<longrightarrow>
        \<bar>nearest_double (like_count s + comment_count s) (view_count s)
           - of_int (like_count s + comment_count s) / of_int (view_count s)\<bar>
        \<le> max (\<bar>of_int (like_count s + comment_count s) / of_int (view_count s)\<bar>
                  * 2 powi (- 53))
               (2 powi (- 1075)))
   \<and> (0 < view_count s
        \<longrightarrow> \<bar>of_int (like_count s + comment_count s) / of_int (view_count s) :: rat\<bar> < 2 ^ 1023
        \<longrightarrow> engagement_rate s
              = Inr (nearest_double (like_count s + comment_count s) (view_count s)))
   \<and> (view_count s = 0 \<longrightarrow> engagement_rate s = Inr 0)
   \<and> engagement_rate s \<noteq> Inl ZeroDivisionError"
proof (intro conjI impI)
  assume "0 < view_count s"
  then show "engagement_rate s
               = Inr (nearest_double (like_count s + comment_count s) (view_count s))
         \<and> \<bar>nearest_double (like_count s + comment_count s) (view_count s)\<bar> < 2 ^ 1024
       \<or> engagement_rate s
             = Inl (OverflowError ''integer division result too large for a float'')
         \<and> 2 ^ 1024 \<le> \<bar>nearest_double (like_count s + comment_count s) (view_count s)\<bar>"
    by (cases "2 ^ 1024 \<le> \<bar>nearest_double (like_count s + comment_count s) (view_count s)\<bar>")
       (simp_all only: engagement_rate_def py_truediv_def Let_def if_True if_False
          not_le order_less_irrefl simp_thms, auto)
next
  assume "0 < view_count s"
  then have "view_count s \<noteq> 0" by simp
  then show "\<bar>nearest_double (like_count s + comment_count s) (view_count s)
           - of_int (like_count s + comment_count s) / of_int (view_count s)\<bar>
        \<le> max (\<bar>of_int (like_count s + comment_count s) / of_int (view_count s)\<bar>
                  * 2 powi (- 53))
               (2 powi (- 1075))"
    by (rule nearest_double_error)
next
  assume v: "0 < view_count s"
    and q: "\<bar>of_int (like_count s + comment_count s) / of_int (view_count s) :: rat\<bar> < 2 ^ 1023"
  from v have "view_count s \<noteq> 0" by simp
  from nearest_double_below [OF this q]
  have "\<not> 2 ^ 1024 \<le> \<bar>nearest_double (like_count s + comment_count s) (view_count s)\<bar>"
    by (simp only: not_le)
  with v show "engagement_rate s
              = Inr (nearest_double (like_count s + comment_count s) (view_count s))"
    by (simp only: engagement_rate_def py_truediv_def Let_def if_False) simp
next
  assume "view_count s = 0"
  then show "engagement_rate s = Inr 0" by (simp add: engagement_rate_def)
next
  show "engagement_rate s \<noteq> Inl ZeroDivisionError"
    by (simp only: engagement_rate_def py_truediv_def Let_def split: if_splits) simp
qed

theorem C1_engagement_rate_witness:
  "engagement_rate \<lparr>view_count = 1000, like_count = 50, comment_count = 10, duration_seconds = 0\<rparr>
     = Inr (1080863910568919 / 18014398509481984)
   \<and> \<bar>1080863910568919 / 18014398509481984 - 3 / 50 :: rat\<bar> \<le> 1 / 2 ^ 57
   \<and> engagement_rate \<lparr>view_count = 0, like_count = 50, comment_count = 10, duration_seconds = 0\<rparr>
     = Inr 0"
proof -
  let ?s = "\<lparr>view_count = 1000, like_count = 50, comment_count = 10, duration_seconds = 0\<rparr>"
  let ?z = "\<lparr>view_count = 0, like_count = 50, comment_count = 10, duration_seconds = 0\<rparr>"
  have v: "0 < view_count ?s" by simp
  have q: "\<bar>of_int (like_count ?s + comment_count ?s) / of_int (view_count ?s) :: rat\<bar> < 2 ^ 1023"
    by simp
  have n: "nearest_double (like_count ?s + comment_count ?s) (view_count ?s)
             = 1080863910568919 / 18014398509481984"
    by code_simp
  from C1_engagement_rate [of ?s] v q
  have "engagement_rate ?s
          = Inr (nearest_double (like_count ?s + comment_count ?s) (view_count ?s))"
    by blast
  with n have one: "engagement_rate ?s = Inr (1080863910568919 / 18014398509481984)"
    by (simp only:)
  have two: "\<bar>1080863910568919 / 18014398509481984 - 3 / 50 :: rat\<bar> \<le> 1 / 2 ^ 57"
    by simp
  have "view_count ?z = 0" by simp
  with C1_engagement_rate [of ?z] have three: "engagement_rate ?z = Inr 0" by blast
  from one two three show ?thesis by (intro conjI)
qed

text \<open>
  A record with \<open>10^309\<close> likes and one view has no engagement rate: the division raises
  \<^verbatim>\<open>OverflowError\<close>. A record with one like and three views has a rate that is not the
  quotient 1/3 but the double nearest to it.
\<close>

theorem C1_engagement_rate_counterexample:
  "engagement_rate \<lparr>view_count = 1, like_count = 10 ^ 309, comment_count = 0,
                    duration_seconds = 0\<rparr>
     = Inl (OverflowError ''integer division result too large for a float'')
   \<and> engagement_rate \<lparr>view_count = 3, like_count = 1, comment_count = 0, duration_seconds = 0\<rparr>
     = Inr (6004799503160661 / 18014398509481984)
   \<and> (6004799503160661 / 18014398509481984 :: rat) \<noteq> 1 / 3"
proof -
  let ?s = "\<lparr>view_count = 1, like_count = 10 ^ 309, comment_count = 0,
             duration_seconds = 0\<rparr>"
  define a where "a = like_count ?s + comment_count ?s"
  define x where "x = nearest_double a 1"
  have q: "(of_int a / of_int 1 :: rat) = 10 ^ 309" by (simp add: a_def)
  have "\<bar>x - of_int a / of_int 1\<bar>
          \<le> max (\<bar>of_int a / of_int 1\<bar> * 2 powi (- 53)) (2 powi (- 1075))"
    unfolding x_def by (rule nearest_double_error) simp
  then have err: "\<bar>x - 10 ^ 309\<bar> \<le> max (\<bar>10 ^ 309\<bar> * 2 powi (- 53)) (2 powi (- 1075))"
    by (simp only: q)
  have m: "max (\<bar>10 ^ 309 :: rat\<bar> * 2 powi (- 53)) (2 powi (- 1075)) \<le> 10 ^ 309 - 2 ^ 1024"
    by simp
  from err m have "\<bar>x - 10 ^ 309\<bar> \<le> 10 ^ 309 - 2 ^ 1024" by (rule order_trans)
  then have big: "2 ^ 1024 \<le> \<bar>x\<bar>" by linarith
  have v: "view_count ?s = 1" by simp
  have "engagement_rate ?s = py_truediv a 1"
    by (simp add: engagement_rate_def a_def)
  also have "\<dots> = Inl (OverflowError ''integer division result too large for a float'')"
    using big by (simp only: py_truediv_def Let_def x_def if_True if_False one_neq_zero)
  finally have one: "engagement_rate ?s
      = Inl (OverflowError ''integer division result too large for a float'')" .
  have two: "engagement_rate \<lparr>view_count = 3, like_count = 1, comment_count = 0,
                               duration_seconds = 0\<rparr>
     = Inr (6004799503160661 / 18014398509481984)"
    by code_simp
  have three: "(6004799503160661 / 18014398509481984 :: rat) \<noteq> 1 / 3" by simp
  from one two three show ?thesis by (intro conjI)
qed

text \<open>
  C2. With the server initialized, a call of a tool name that is not a key of the registry
  returns one text item, the failure message, which lists the three registered names
  search\_videos, analyze\_market and system\_status; nothing is raised.
\<close>

theorem C2_unknown_tool:
  assumes "name \<notin> {''search_videos'', ''analyze_market'', ''system_status''}"
  shows "call_tool fmt True (youtube_tools hs) name args
           = [TextContent ''text''
                (''Error: Tool '' @ [CHR 0x27] @ name @ [CHR 0x27]
                 @ '' not found. Available tools: ''
                 @ ''['search_videos', 'analyze_market', 'system_status']'')]"
  using assms
  by (simp add: call_tool_def youtube_tools_def py_str_list_def py_repr_str_def repr_char_def
      Let_def)

theorem C2_unknown_tool_witness:
  "call_tool sample_fmt True (youtube_tools sample_handlers) ''download_video'' no_arguments
     = [TextContent ''text''
          (''Error: Tool 'download_video' not found. Available tools: ''
           @ ''['search_videos', 'analyze_market', 'system_status']'')]"
  using C2_unknown_tool [of "''download_video''" sample_fmt sample_handlers no_arguments]
  by simp

text \<open>
  C3. A raw record whose duration string is malformed (the duration parser raises on it)
  is not normalised at all: the parser of the record returns \<open>None\<close>, and the batch
  leaves the record out while the records before and after it are normalised as usual.
  No video with \<open>duration_seconds = 0\<close> is produced for it.
\<close>

theorem C3_malformed_duration_dropped:
  assumes "it_contentDetails item = Some cd" and "cd_duration cd = Some d"
    and "parse_duration env d = None"
  shows "parse_video_item env item = None
       \<and> (videos_list env ''snippet,statistics,contentDetails'' ids
              = Inr (Some (before @ item # after))
            \<longrightarrow> fetch_video_batch env ids
                  = List.map_filter (parse_video_item env) before
                    @ List.map_filter (parse_video_item env) after)"
proof -
  have none: "parse_video_item env item = None"
    using assms by (cases "it_snippet item") (simp_all add: parse_video_item_def Let_def)
  then show ?thesis
    by (simp add: fetch_video_batch_def map_filter_def)
qed

theorem C3_malformed_duration_dropped_witness:
  "parse_duration sample_services ''fifteen minutes'' = None
   \<and> parse_video_item sample_services bad_item = None
   \<and> fetch_video_batch sample_services [''v1'', ''v3'', ''v2'']
       = List.map_filter (parse_video_item sample_services)
           [sample_item ''v1'' ''Python Tutorial'' ''Alpha'' ''PT15M30S'']
         @ List.map_filter (parse_video_item sample_services)
           [sample_item ''v2'' ''Chess game review'' ''Beta'' ''PT1H'']"
proof -
  have a: "it_contentDetails bad_item = Some \<lparr>cd_duration = Some ''fifteen minutes''\<rparr>"
    by (simp add: bad_item_def sample_item_def)
  have b: "cd_duration \<lparr>cd_duration = Some ''fifteen minutes''\<rparr> = Some ''fifteen minutes''"
    by simp
  have c: "parse_duration sample_services ''fifteen minutes'' = None"
    by code_simp
  have d: "videos_list sample_services ''snippet,statistics,contentDetails'' [''v1'', ''v3'', ''v2'']
             = Inr (Some ([sample_item ''v1'' ''Python Tutorial'' ''Alpha'' ''PT15M30S'']
                          @ bad_item
                          # [sample_item ''v2'' ''Chess game review'' ''Beta'' ''PT1H'']))"
    by (simp add: sample_services_def sample_videos_list_def sample_catalogue_def
        map_filter_def bad_item_def)
  note dropped = C3_malformed_duration_dropped [OF a b c, of "[''v1'', ''v3'', ''v2'']"
      "[sample_item ''v1'' ''Python Tutorial'' ''Alpha'' ''PT15M30S'']"
      "[sample_item ''v2'' ''Chess game review'' ''Beta'' ''PT1H'']"]
  from dropped have none: "parse_video_item sample_services bad_item = None"
    by (rule conjunct1)
  from dropped d have rest: "fetch_video_batch sample_services [''v1'', ''v3'', ''v2'']
       = List.map_filter (parse_video_item sample_services)
           [sample_item ''v1'' ''Python Tutorial'' ''Alpha'' ''PT15M30S'']
         @ List.map_filter (parse_video_item sample_services)
           [sample_item ''v2'' ''Chess game review'' ''Beta'' ''PT1H'']"
    by blast
  from c none rest show ?thesis by (intro conjI)
qed

text \<open>
  The sample provider returns \<open>v3\<close> with the duration string \<^verbatim>\<open>fifteen minutes\<close>:
  the batch of \<open>v1\<close>, \<open>v3\<close>, \<open>v2\<close> comes back without \<open>v3\<close>.
\<close>

theorem C3_malformed_duration_counterexample:
  "sample_parse_duration ''fifteen minutes'' = None
   \<and> parse_video_item sample_services bad_item = None
   \<and> map video_id (fetch_video_batch sample_services [''v1'', ''v3'', ''v2'']) = [''v1'', ''v2'']"
  by code_simp

text \<open>
  C4. In every market analysis the competition level is a function of the number of
  distinct channel titles of the sample alone (channels are counted by their title; the
  channel id is not consulted): more than 30 distinct titles give "High", more than 15 and
  at most 30 give "Medium", at most 15 give "Low"; so 31 is "High", 30 is "Medium" and 15
  is "Low".
\<close>

theorem C4_competition_level:
  assumes "analyze_market_data frame vs topic = Inr a"
  shows "unique_creators (overview a) = card (channel_title ` set vs)
       \<and> (30 < card (channel_title ` set vs) \<longrightarrow> competition_level (overview a) = ''High'')
       \<and> (15 < card (channel_title ` set vs) \<and> card (channel_title ` set vs) \<le> 30
            \<longrightarrow> competition_level (overview a) = ''Medium'')
       \<and> (card (channel_title ` set vs) \<le> 15 \<longrightarrow> competition_level (overview a) = ''Low'')
       \<and> competition_level_of 31 = ''High'' \<and> competition_level_of 30 = ''Medium''
       \<and> competition_level_of 16 = ''Medium'' \<and> competition_level_of 15 = ''Low''"
  using assms
  by (auto simp: analyze_market_data_def Let_def competition_level_of_def
        unique_channels_card split: sum.splits)

theorem C4_competition_level_witness:
  "(\<exists>a. analyze_market_data sample_analytics (map sample_video [0..<31]) ''chess'' = Inr a
       \<and> unique_creators (overview a) = 31
       \<and> competition_level (overview a) = ''High'')
   \<and> (\<exists>a. analyze_market_data sample_analytics (map sample_video [0..<30]) ''chess'' = Inr a
       \<and> unique_creators (overview a) = 30
       \<and> competition_level (overview a) = ''Medium'')
   \<and> (\<exists>a. analyze_market_data sample_analytics (map sample_video [0..<15]) ''chess'' = Inr a
       \<and> unique_creators (overview a) = 15
       \<and> competition_level (overview a) = ''Low'')"
proof -
  obtain a where a: "analyze_market_data sample_analytics (map sample_video [0..<31]) ''chess''
                       = Inr a"
    by (simp add: analyze_market_data_def sample_analytics_def Let_def)
  obtain b where b: "analyze_market_data sample_analytics (map sample_video [0..<30]) ''chess''
                       = Inr b"
    by (simp add: analyze_market_data_def sample_analytics_def Let_def)
  obtain c where c: "analyze_market_data sample_analytics (map sample_video [0..<15]) ''chess''
                       = Inr c"
    by (simp add: analyze_market_data_def sample_analytics_def Let_def)
  have high: "unique_creators (overview a) = 31 \<and> competition_level (overview a) = ''High''"
    using C4_competition_level [OF a] sample_channels_card [of 31] by simp
  have medium: "unique_creators (overview b) = 30 \<and> competition_level (overview b) = ''Medium''"
    using C4_competition_level [OF b] sample_channels_card [of 30] by simp
  have low: "unique_creators (overview c) = 15 \<and> competition_level (overview c) = ''Low''"
    using C4_competition_level [OF c] sample_channels_card [of 15] by simp
  from a b c high medium low show ?thesis by blast
qed

text \<open>
  A sample of 31 videos from 31 channels, all with different channel ids, whose channels
  share one title: one creator is counted and the level is "Low".
\<close>

theorem C4_competition_level_counterexample:
  "length (map shared_title_video [0..<31]) = 31
   \<and> distinct (map channel_id (map shared_title_video [0..<31]))
   \<and> competition_of
         (analyze_market_data sample_analytics (map shared_title_video [0..<31]) ''news'')
       = Some (1, ''Low'')"
  by code_simp

text \<open>
  C5. Category inference works on the lower-cased concatenation of title and description
  and is a function of it; the keyword sets are tried in the order education, technology,
  gaming, music, news, sports, the first set with a keyword occurring in the content decides,
  and no match gives \<open>OTHER\<close>. Content with both "tutorial" and "game" is \<open>EDUCATION\<close>.
\<close>

theorem C5_categorize_first_match:
  "categorize_video ttl descr
     = spec_first_match spec_category_rules (py_lower (ttl @ '' '' @ descr))
   \<and> (py_in ''tutorial'' (py_lower (ttl @ '' '' @ descr))
        \<and> py_in ''game'' (py_lower (ttl @ '' '' @ descr))
      \<longrightarrow> categorize_video ttl descr = EDUCATION)"
proof
  show "categorize_video ttl descr
     = spec_first_match spec_category_rules (py_lower (ttl @ '' '' @ descr))"
    unfolding categorize_video_def spec_category_rules_def Let_def spec_first_match.simps
      any_word_in_iff by simp
next
  show "py_in ''tutorial'' (py_lower (ttl @ '' '' @ descr))
        \<and> py_in ''game'' (py_lower (ttl @ '' '' @ descr))
      \<longrightarrow> categorize_video ttl descr = EDUCATION"
    by (simp add: categorize_video_def any_word_in_def)
qed

theorem C5_categorize_first_match_witness:
  "py_in ''tutorial'' (py_lower (''Tutorial: build a GAME'' @ '' '' @ ''Step by step''))
   \<and> py_in ''game'' (py_lower (''Tutorial: build a GAME'' @ '' '' @ ''Step by step''))
   \<and> categorize_video ''Tutorial: build a GAME'' ''Step by step'' = EDUCATION"
proof -
  have a: "py_in ''tutorial'' (py_lower (''Tutorial: build a GAME'' @ '' '' @ ''Step by step''))"
    by code_simp
  have b: "py_in ''game'' (py_lower (''Tutorial: build a GAME'' @ '' '' @ ''Step by step''))"
    by code_simp
  from C5_categorize_first_match [of "''Tutorial: build a GAME''" "''Step by step''"] a b
  show ?thesis by blast
qed





text \<open>
  C7. Before initialization \<^verbatim>\<open>list_tools\<close> returns the empty list; after it, it
  returns exactly the three registered descriptors, named search\_videos, analyze\_market
  and system\_status, in this order.
\<close>

theorem C7_list_tools:
  "list_tools False (youtube_tools hs) = []
   \<and> map t_name (list_tools True (youtube_tools hs))
       = [''search_videos'', ''analyze_market'', ''system_status'']
   \<and> list_tools True (youtube_tools hs)
       = [\<lparr>t_name = ''search_videos'',
           t_description = ''Search YouTube videos with detailed analysis and insights'',
           t_inputSchema = search_schema\<rparr>,
          \<lparr>t_name = ''analyze_market'',
           t_description = ''Analyze YouTube market trends and competition for specific topics'',
           t_inputSchema = market_schema\<rparr>,
          \<lparr>t_name = ''system_status'',
           t_description =
             ''Get YouTube Intelligence MCP Server system status and health metrics'',
           t_inputSchema = status_schema\<rparr>]"
  by (simp add: list_tools_def youtube_tools_def)

theorem C7_list_tools_witness:
  "list_tools False (youtube_tools sample_handlers) = []
   \<and> map t_name (list_tools True (youtube_tools sample_handlers))
       = [''search_videos'', ''analyze_market'', ''system_status'']
   \<and> length (list_tools True (youtube_tools sample_handlers)) = 3"
  using C7_list_tools [of sample_handlers] by simp

text \<open>
  C8. When the search of a market-analysis call comes back with no videos, the handler
  returns a result with \<open>success\<close> false whose message is "No videos found for topic: "
  followed by the requested topic; it is a returned value, nothing is raised.
\<close>

theorem C8_no_videos:
  assumes "market_search env args = Inr results" and "videos results = []"
  shows "market_call env frame args
           = \<lparr>success = False,
              message = Some (''No videos found for topic: '' @ get_or (arg_topic args) []),
              error = None, data = None\<rparr>
         \<and> py_in (get_or (arg_topic args) [])
              (get_or (message (market_call env frame args)) [])"
proof -
  have eq: "market_call env frame args
           = \<lparr>success = False,
              message = Some (''No videos found for topic: '' @ get_or (arg_topic args) []),
              error = None, data = None\<rparr>"
    using assms by (simp add: market_call_def)
  have "get_or (message (market_call env frame args)) []
          = ''No videos found for topic: '' @ get_or (arg_topic args) []"
    unfolding eq by (simp add: get_or_def)
  then have "py_in (get_or (arg_topic args) [])
              (get_or (message (market_call env frame args)) [])"
    by (simp only: py_in_suffix)
  with eq show ?thesis by (rule conjI)
qed

theorem C8_no_videos_witness:
  "market_call sample_services sample_analytics (no_arguments\<lparr>arg_topic := Some ''rust''\<rparr>)
     = \<lparr>success = False, message = Some ''No videos found for topic: rust'',
        error = None, data = None\<rparr>"
  using C8_no_videos [OF sample_rust_search, of sample_analytics]
  by (simp add: get_or_def no_arguments_def)

text \<open>
  C9. The configuration block of a status result has five entries: one boolean flag for
  each of the three credentials (YouTube, Firebase, Claude), the output directory, and the
  maximal search size 50. No credential value enters the result: two configurations whose
  credentials have the same truth values, and which agree on the output directory, give the
  same result.
\<close>

theorem C9_status_configuration:
  "(\<exists>st. data (status_call cfg env h args) = Some st
         \<and> configuration st =
             [(''youtube_api_configured'', CBool (truthy (YOUTUBE_API_KEY cfg))),
              (''firebase_configured'', CBool (truthy (FIREBASE_PROJECT_ID cfg))),
              (''claude_api_configured'', CBool (truthy (ANTHROPIC_API_KEY cfg))),
              (''output_directory'', CStr (OUTPUT_DIR cfg)),
              (''max_videos_per_search'', CInt 50)])
   \<and> (truthy (YOUTUBE_API_KEY cfg) = truthy (YOUTUBE_API_KEY cfg')
        \<longrightarrow> truthy (FIREBASE_PROJECT_ID cfg) = truthy (FIREBASE_PROJECT_ID cfg')
        \<longrightarrow> truthy (ANTHROPIC_API_KEY cfg) = truthy (ANTHROPIC_API_KEY cfg')
        \<longrightarrow> OUTPUT_DIR cfg = OUTPUT_DIR cfg'
        \<longrightarrow> status_call cfg env h args = status_call cfg' env h args)"
  by (simp add: status_call_def Let_def MAX_VIDEOS_PER_SEARCH_def check_api_status_def)

theorem C9_status_configuration_witness:
  "sample_config \<noteq> sample_config_rotated
   \<and> status_call sample_config sample_services sample_host no_arguments
       = status_call sample_config_rotated sample_services sample_host no_arguments"
proof -
  have "truthy (YOUTUBE_API_KEY sample_config) = truthy (YOUTUBE_API_KEY sample_config_rotated)"
    "truthy (FIREBASE_PROJECT_ID sample_config) = truthy (FIREBASE_PROJECT_ID sample_config_rotated)"
    "truthy (ANTHROPIC_API_KEY sample_config) = truthy (ANTHROPIC_API_KEY sample_config_rotated)"
    "OUTPUT_DIR sample_config = OUTPUT_DIR sample_config_rotated"
    by (simp_all add: sample_config_def sample_config_rotated_def truthy_def)
  with C9_status_configuration [of sample_config sample_services sample_host no_arguments
      sample_config_rotated]
  have "status_call sample_config sample_services sample_host no_arguments
       = status_call sample_config_rotated sample_services sample_host no_arguments"
    by blast
  moreover have "sample_config \<noteq> sample_config_rotated"
    by (simp add: sample_config_def sample_config_rotated_def)
  ultimately show ?thesis by simp
qed

text \<open>
  The block is not made of the three flags and the search size alone: it also reports
  the output directory.
\<close>

theorem C9_status_configuration_counterexample:
  "map fst (configuration_of
      (status_call sample_config sample_services sample_host no_arguments))
     = [''youtube_api_configured'', ''firebase_configured'', ''claude_api_configured'',
        ''output_directory'', ''max_videos_per_search'']
   \<and> map_of (configuration_of
         (status_call sample_config sample_services sample_host no_arguments))
       ''output_directory'' = Some (CStr ''/srv/app/output'')"
  by code_simp

text \<open>
  C10. The market handler passes min(sample\_size, 100) as the maximal number of results
  of its query, and the search request sends min of that and 50 as \<^verbatim>\<open>maxResults\<close>, which
  is at most 50. With a provider that returns at most \<^verbatim>\<open>maxResults\<close> search items and at
  most one record per requested id, at most 50 videos are fetched and analysed in one call.
\<close>

theorem C10_sample_cap:
  "(market_query env args = Inr q \<longrightarrow>
       max_results q = min (get_or (arg_sample_size args) 50) 100
     \<and> sp_maxResults (build_search_params env q)
         = min (min (get_or (arg_sample_size args) 50) 100) 50
     \<and> sp_maxResults (build_search_params env q) \<le> 50)
   \<and> (provider_respects_limits env \<longrightarrow> market_search env args = Inr results
        \<longrightarrow> length (videos results) \<le> 50)
   \<and> (provider_respects_limits env \<longrightarrow> market_call env frame args = r \<longrightarrow> data r = Some d
        \<longrightarrow> md_videos_analyzed d \<le> 50)"
proof (intro conjI impI)
  assume q: "market_query env args = Inr q"
  then show "max_results q = min (get_or (arg_sample_size args) 50) 100"
    by (auto simp: market_query_def Let_def split: sum.splits option.splits)
  then show "sp_maxResults (build_search_params env q)
         = min (min (get_or (arg_sample_size args) 50) 100) 50"
    by (simp add: build_search_params_def)
  show "sp_maxResults (build_search_params env q) \<le> 50"
    by (simp add: build_search_params_def)
next
  assume c: "provider_respects_limits env" and s: "market_search env args = Inr results"
  from s obtain q where "search_videos env q = Inr results"
    by (auto simp: market_search_def split: sum.splits)
  from search_videos_length [OF c this] show "length (videos results) \<le> 50" by simp
next
  assume c: "provider_respects_limits env" and r: "market_call env frame args = r"
    and d: "data r = Some d"
  from r d obtain results where s: "market_search env args = Inr results"
    and n: "md_videos_analyzed d = length (videos results)"
    by (auto simp: market_call_def market_failure_def split: sum.splits if_splits)
  from s obtain q where "search_videos env q = Inr results"
    by (auto simp: market_search_def split: sum.splits)
  from search_videos_length [OF c this] n show "md_videos_analyzed d \<le> 50" by simp
qed

theorem C10_sample_cap_witness:
  "provider_respects_limits sample_services
   \<and> (\<exists>q. market_query sample_services python_arguments = Inr q
          \<and> max_results q = 80
          \<and> sp_maxResults (build_search_params sample_services q) = 50)
   \<and> (\<exists>results. market_search sample_services python_arguments = Inr results
          \<and> map video_id (videos results) = [''v1'', ''v2'']
          \<and> length (videos results) \<le> 50)
   \<and> (\<exists>d. data (market_call sample_services sample_analytics python_arguments) = Some d
          \<and> md_videos_analyzed d = 2 \<and> md_videos_analyzed d \<le> 50)"
proof -
  let ?q = "\<lparr>query = ''python'', max_results = 80, region_code = ''US'', language = ''en'',
             published_after = Some 1711972800, published_before = None,
             order = ''viewCount''\<rparr>"
  have q: "market_query sample_services python_arguments = Inr ?q"
    by code_simp
  have size: "get_or (arg_sample_size python_arguments) 50 = 80"
    by (simp add: python_arguments_def no_arguments_def get_or_def)
  have "map_sum id (\<lambda>r. map video_id (videos r))
          (market_search sample_services python_arguments) = Inr [''v1'', ''v2'']"
    by code_simp
  then obtain results where
    s: "market_search sample_services python_arguments = Inr results"
    and v: "map video_id (videos results) = [''v1'', ''v2'']"
    by (cases "market_search sample_services python_arguments") auto
  have "map_option md_videos_analyzed
          (data (market_call sample_services sample_analytics python_arguments)) = Some 2"
    by code_simp
  then obtain d where
    d: "data (market_call sample_services sample_analytics python_arguments) = Some d"
    and n: "md_videos_analyzed d = 2"
    by auto
  note c = sample_provider_respects_limits
  from C10_sample_cap [of sample_services python_arguments ?q results sample_analytics
      "market_call sample_services sample_analytics python_arguments" d] q size c s d
  have bounds: "max_results ?q = 80
        \<and> sp_maxResults (build_search_params sample_services ?q) = 50
        \<and> length (videos results) \<le> 50 \<and> md_videos_analyzed d \<le> 50"
    by simp
  have one: "\<exists>q. market_query sample_services python_arguments = Inr q
          \<and> max_results q = 80
          \<and> sp_maxResults (build_search_params sample_services q) = 50"
    using q bounds by (intro exI [of _ ?q]) simp
  have two: "\<exists>results. market_search sample_services python_arguments = Inr results
          \<and> map video_id (videos results) = [''v1'', ''v2'']
          \<and> length (videos results) \<le> 50"
    using s v bounds by (intro exI [of _ results]) simp
  have three: "\<exists>d. data (market_call sample_services sample_analytics python_arguments)
            = Some d
          \<and> md_videos_analyzed d = 2 \<and> md_videos_analyzed d \<le> 50"
    using d n bounds by (intro exI [of _ d]) simp
  from c one two three show ?thesis by (intro conjI)
qed

end
